theory Spec2Isabelle
  imports Complex_Main "HOL-Library.Word"
begin

section \<open>Common types\<close>

text \<open>
  \<open>MathSize\<close>, \<open>DurationSize\<close> and \<open>ThresholdSize\<close> are the simulator's floating-point
  types. They are modelled as \<open>real\<close>: the comparisons and the algebra of the formulas are
  those of the source; rounding, infinities and NaN are not represented.
  \<open>size_t\<close> is a 64-bit word; \<open>int\<close> and \<open>unsigned\<close> are 32-bit words where the source
  stores them, read with \<open>sint\<close> and \<open>unat\<close>.
  Member names are written without the trailing underscore of the source.
\<close>

type_synonym MathSize = real
type_synonym DurationSize = real
type_synonym ThresholdSize = real
type_synonym size_t = "64 word"
type_synonym FuelCodeSize = nat

text \<open>
  How a call can end without a value: a \<open>std::out_of_range\<close> exception, a
  \<open>logging::fatal\<close> abort with its message, a conversion or dereference that C++ leaves
  undefined, and \<open>std::terminate\<close>.
\<close>

datatype failure = out_of_range | fatal string | undefined_behaviour | terminated

text \<open>
  The part of \<open>Settings\<close> that the functions below read. The two percentages are \<open>int\<close>
  values that are only compared, reduced modulo 5 and, once checked to lie between 0 and
  100, converted to \<open>size_t\<close>; they are integers here.
\<close>

record Settings =
  deterministic :: bool
  runAsync :: bool
  confidenceLevel :: ThresholdSize
  defaultPercentConifer :: int
  defaultPercentDeadFir :: int

section \<open>Survival of a fire in a cell (Scenario.h, \<open>Scenario::survives\<close>)\<close>

text \<open>
  Modelled from the spec: the constant \<open>DAY_HOURS\<close> is defined in a header that is not
  part of the sources at hand; the weather-index law of the specification
  (\<open>d*24 + h\<close>) gives its value.
\<close>

definition DAY_HOURS :: nat where
  "DAY_HOURS = 24"

text \<open>
  \<open>static_cast<size_t>\<close> of a floating-point value truncates towards zero and is undefined
  when the truncated value does not fit \<open>size_t\<close>.
\<close>

definition size_t_of_real :: "real \<Rightarrow> failure + size_t" where
  "size_t_of_real x =
    (if x \<le> -1 \<or> 2 ^ 64 \<le> x then Inl undefined_behaviour
     else Inr (word_of_int (if 0 \<le> x then \<lfloor>x\<rfloor> else \<lceil>x\<rceil>)))"

definition time_index :: "DurationSize \<Rightarrow> failure + size_t" where
  "time_index time = size_t_of_real (time * real DAY_HOURS)"

text \<open>\<open>std::vector::at\<close>: the element, or \<open>std::out_of_range\<close>.\<close>

definition vector_at :: "'a list \<Rightarrow> size_t \<Rightarrow> failure + 'a" where
  "vector_at v i = (if unat i < length v then Inr (v ! unat i) else Inl out_of_range)"

text \<open>
  \<open>wx::FwiWeather\<close>, \<open>wx::FireWeather\<close> and \<open>topo::Cell\<close> are declared in headers that are
  not part of the sources at hand. Of an \<open>FwiWeather\<close> only the value of \<open>mcDmcPct()\<close> is
  read, of a \<open>Cell\<close> only \<open>fuelCode()\<close>. The two members of \<open>FireWeather\<close> that
  \<open>survives\<close> calls are taken as they are declared: \<open>at\<close> (here \<open>at_wx\<close>) returns a
  pointer (\<open>None\<close> is the null pointer) and \<open>survivalProbability\<close> a value, and either may throw.
\<close>

record FwiWeather =
  mcDmcPct :: MathSize

record Cell =
  fuelCode :: FuelCodeSize

record FireWeather =
  at_wx :: "DurationSize \<Rightarrow> failure + FwiWeather option"
  survivalProbability :: "DurationSize \<Rightarrow> FuelCodeSize \<Rightarrow> failure + ThresholdSize"

record Scenario =
  weather :: FireWeather
  extinction_thresholds :: "ThresholdSize list"
  start_day :: nat

definition extinctionThreshold :: "Scenario \<Rightarrow> DurationSize \<Rightarrow> failure + ThresholdSize" where
  "extinctionThreshold scenario time =
    (case time_index (time - real (start_day scenario)) of
       Inl e \<Rightarrow> Inl e
     | Inr i \<Rightarrow> vector_at (extinction_thresholds scenario) i)"

text \<open>
  The body of the \<open>try\<close> block of \<open>survives\<close>. The two operands of the final comparison
  are evaluated threshold first; both can only fail the same ways.
\<close>

definition survives_try :: "Scenario \<Rightarrow> DurationSize \<Rightarrow> Cell \<Rightarrow> DurationSize \<Rightarrow> failure + bool" where
  "survives_try scenario time cell time_at_location =
    (let fire_wx = weather scenario in
     case at_wx fire_wx time of
       Inl e \<Rightarrow> Inl e
     | Inr None \<Rightarrow> Inl undefined_behaviour
     | Inr (Some wx) \<Rightarrow>
         let mc = mcDmcPct wx in
         if 100 > mc
            \<or> (109 \<ge> mc \<and> 5 > time_at_location)
            \<or> (119 \<ge> mc \<and> 4 > time_at_location)
            \<or> (131 \<ge> mc \<and> 3 > time_at_location)
            \<or> (145 \<ge> mc \<and> 2 > time_at_location)
            \<or> (218 \<ge> mc \<and> 1 > time_at_location)
         then Inr True
         else
           (case extinctionThreshold scenario time of
              Inl e \<Rightarrow> Inl e
            | Inr threshold \<Rightarrow>
                (case survivalProbability fire_wx time (fuelCode cell) of
                   Inl e \<Rightarrow> Inl e
                 | Inr probability \<Rightarrow> Inr (threshold < probability))))"

definition survives :: "Settings \<Rightarrow> Scenario \<Rightarrow> DurationSize \<Rightarrow> Cell \<Rightarrow> DurationSize \<Rightarrow> failure + bool" where
  "survives settings scenario time cell time_at_location =
    (if deterministic settings then Inr True
     else
       (case survives_try scenario time cell time_at_location of
          Inl out_of_range \<Rightarrow> Inr False
        | r \<Rightarrow> r))"

section \<open>Stopping rule of the iteration controller (Model.cpp, \<open>runs_required\<close>)\<close>

text \<open>
  The two flags of \<open>Model\<close> behind \<open>isOutOfTime()\<close> and \<open>isOverSimulationCountLimit()\<close>.
\<close>

record Model_flags =
  is_out_of_time :: bool
  is_over_simulation_count :: bool

definition isOutOfTime :: "Model_flags \<Rightarrow> bool" where
  "isOutOfTime model = is_out_of_time model"

definition isOverSimulationCountLimit :: "Model_flags \<Rightarrow> bool" where
  "isOverSimulationCountLimit model = is_over_simulation_count model"

text \<open>
  \<open>util::Statistics\<close> is declared in Statistics.h, which is not part of the sources at
  hand. A \<open>Statistics\<close> object is built from a vector of values; its two members used
  here are taken as parameters: \<open>isConfident\<close> and \<open>runsRequired\<close>, each a function of the
  values the object was built from and of the confidence level.
\<close>

definition runs_required ::
  "(MathSize list \<Rightarrow> ThresholdSize \<Rightarrow> bool) \<Rightarrow> (MathSize list \<Rightarrow> ThresholdSize \<Rightarrow> size_t) \<Rightarrow>
   Settings \<Rightarrow> size_t \<Rightarrow> MathSize list \<Rightarrow> MathSize list \<Rightarrow> MathSize list \<Rightarrow> Model_flags \<Rightarrow> size_t"
where
  "runs_required isConfident runsRequired settings i all_sizes means pct model =
    (if deterministic settings then 0
     else if isOverSimulationCountLimit model then 0
     else if isOutOfTime model then 0
     else
       let for_sizes = all_sizes;
           for_means = means;
           for_pct = pct
       in if \<not> (\<not> isConfident for_means (confidenceLevel settings)
                 \<or> \<not> isConfident for_pct (confidenceLevel settings)
                 \<or> \<not> isConfident for_sizes (confidenceLevel settings))
          then 0
          else
            let runs_for_means = runsRequired for_means (confidenceLevel settings);
                runs_for_pct = runsRequired for_pct (confidenceLevel settings);
                runs_for_sizes = runsRequired for_sizes (confidenceLevel settings);
                left = max (max runs_for_means runs_for_pct) runs_for_sizes
            in left)"

section \<open>The task limiter (FuelType.h, \<open>Semaphore\<close>; Model.cpp, \<open>Model::runIterations\<close>)\<close>

text \<open>
  \<open>used_\<close> and \<open>limit_\<close> are \<open>int\<close> members. \<open>set_limit\<close> takes a \<open>size_t\<close> and stores it
  in the \<open>int\<close>: the low 32 bits are kept. \<open>limit()\<close> converts the \<open>int\<close> back to \<open>size_t\<close>.
\<close>

record Semaphore =
  used :: "32 word"
  limit :: "32 word"

definition Semaphore_new :: "32 word \<Rightarrow> Semaphore" where
  "Semaphore_new n = \<lparr>used = 0, limit = n\<rparr>"

definition set_limit :: "size_t \<Rightarrow> Semaphore \<Rightarrow> Semaphore" where
  "set_limit l s = s\<lparr>limit := ucast l\<rparr>"

definition get_limit :: "Semaphore \<Rightarrow> size_t" where
  "get_limit s = scast (limit s)"

text \<open>
  \<open>Semaphore Model::task_limiter{static_cast<int>(std::thread::hardware_concurrency())}\<close>:
  the argument is the value \<open>hardware_concurrency()\<close> returns, an \<open>unsigned\<close>.
\<close>

definition task_limiter_initial :: "32 word \<Rightarrow> Semaphore" where
  "task_limiter_initial hardware_concurrency = Semaphore_new hardware_concurrency"

text \<open>
  The lines of \<open>Model::runIterations\<close> that touch the task limiter, as a function of the
  limiter's state: nothing happens unless \<open>Settings::runAsync()\<close>.
\<close>

definition runIterations_task_limiter :: "Settings \<Rightarrow> 32 word \<Rightarrow> size_t \<Rightarrow> Semaphore \<Rightarrow> Semaphore" where
  "runIterations_task_limiter settings hardware_concurrency scenarios_per_iteration task_limiter =
    (if runAsync settings then
       let HARDWARE_THREADS = (ucast hardware_concurrency :: size_t);
           MAX_THREADS = max HARDWARE_THREADS scenarios_per_iteration
       in if MAX_THREADS > HARDWARE_THREADS then set_limit MAX_THREADS task_limiter
          else task_limiter
     else task_limiter)"

text \<open>
  \<open>wait\<close> blocks until \<open>used_ <= limit_\<close> and then counts the caller in; \<open>None\<close> stands for
  a call that has to block. \<open>notify\<close> counts one out. \<open>wait_all n\<close> is \<open>n\<close> calls of
  \<open>wait\<close> in a row with no \<open>notify\<close> between them: \<open>n\<close> scenarios that all run at once.
\<close>

definition wait :: "Semaphore \<Rightarrow> Semaphore option" where
  "wait s = (if sint (used s) \<le> sint (limit s) then Some (s\<lparr>used := used s + 1\<rparr>) else None)"

definition notify :: "Semaphore \<Rightarrow> Semaphore" where
  "notify s = s\<lparr>used := used s - 1\<rparr>"

fun wait_all :: "nat \<Rightarrow> Semaphore \<Rightarrow> Semaphore option" where
  "wait_all 0 s = Some s"
| "wait_all (Suc n) s = (case wait s of None \<Rightarrow> None | Some s' \<Rightarrow> wait_all n s')"

section \<open>Angles (ProbabilityMap.h, \<open>fix_radians\<close>, \<open>to_radians\<close>, \<open>to_degrees\<close>)\<close>

text \<open>
  Modelled from the spec: the constants \<open>M_2_X_PI\<close> and \<open>M_RADIANS_TO_DEGREES\<close> are
  defined in a header that is not part of the sources at hand; they are taken to be
  what their names and the angle law of the specification say, \<open>2\<pi>\<close> and \<open>180/\<pi>\<close>.
\<close>

definition M_2_X_PI :: MathSize where
  "M_2_X_PI = 2 * pi"

definition M_RADIANS_TO_DEGREES :: MathSize where
  "M_RADIANS_TO_DEGREES = 180 / pi"

definition fix_radians :: "MathSize \<Rightarrow> MathSize" where
  "fix_radians theta =
    (if theta > M_2_X_PI then theta - M_2_X_PI
     else if theta < 0 then theta + M_2_X_PI
     else theta)"

definition to_radians :: "MathSize \<Rightarrow> MathSize" where
  "to_radians degrees = fix_radians (degrees / M_RADIANS_TO_DEGREES)"

definition to_degrees :: "MathSize \<Rightarrow> MathSize" where
  "to_degrees radians = fix_radians radians * M_RADIANS_TO_DEGREES"

section \<open>Probability of burning (FuelType.h, \<open>FuelBase::probabilityPeat\<close>)\<close>

text \<open>
  \<open>FuelBase\<close> is a class template over three \<open>int\<close>s; the two that \<open>probabilityPeat\<close>
  reads are arguments here.
\<close>

definition bulkDensity :: "int \<Rightarrow> MathSize" where
  "bulkDensity BulkDensity = real_of_int BulkDensity / 1000.0"

definition inorganicPercent :: "int \<Rightarrow> MathSize" where
  "inorganicPercent InorganicPercent = real_of_int InorganicPercent / 100.0"

definition probabilityPeat :: "int \<Rightarrow> int \<Rightarrow> MathSize \<Rightarrow> ThresholdSize" where
  "probabilityPeat BulkDensity InorganicPercent mc_fraction =
    (let pb = bulkDensity BulkDensity;
         fi = inorganicPercent InorganicPercent;
         p_i = fi * pb;
         ri = fi / (1 - fi);
         const_part = -19.329 + 1.7170 * ri + 23.059 * p_i
     in 1 / (1 + exp (17.047 * mc_fraction / (1 - fi) + const_part)))"

section \<open>Tabulated functions (LookupTable.h, \<open>util::LookupTable\<close>; ProbabilityMap.h, \<open>pow_int\<close>)\<close>

text \<open>
  \<open>pow_int<N>(10)\<close> is instantiated at \<open>int\<close>. The table's size is a constant
  expression, so a size that overflows \<open>int\<close> does not compile; the model computes in
  unbounded integers.
\<close>

fun pow_int :: "nat \<Rightarrow> int \<Rightarrow> int" where
  "pow_int N base =
    (if N = 0 then 1
     else if N mod 2 = 0 then pow_int (N div 2) base * pow_int (N div 2) base
     else base * pow_int ((N - 1) div 2) base * pow_int ((N - 1) div 2) base)"

declare pow_int.simps [simp del]

definition makeValues :: "(MathSize \<Rightarrow> MathSize) \<Rightarrow> nat \<Rightarrow> nat \<Rightarrow> MathSize list" where
  "makeValues Fct IndexDigits Precision =
    map (\<lambda>i. let v = real i / real_of_int (pow_int Precision 10) in Fct v)
      [0 ..< nat (pow_int IndexDigits 10 * pow_int Precision 10)]"

text \<open>\<open>operator()\<close> with the tables on, as the header leaves them.\<close>

definition LookupTable_call :: "(MathSize \<Rightarrow> MathSize) \<Rightarrow> nat \<Rightarrow> nat \<Rightarrow> MathSize \<Rightarrow> failure + MathSize" where
  "LookupTable_call Fct IndexDigits Precision v =
    (case size_t_of_real (v * real_of_int (pow_int Precision 10)) of
       Inl e \<Rightarrow> Inl e
     | Inr i \<Rightarrow> vector_at (makeValues Fct IndexDigits Precision) i)"

text \<open>
  The direct call the table stands for: \<open>Fct\<close> at the value truncated to \<open>Precision\<close>
  decimal digits.
\<close>

definition truncate_to_precision :: "nat \<Rightarrow> real \<Rightarrow> real" where
  "truncate_to_precision Precision v = real_of_int \<lfloor>v * 10 ^ Precision\<rfloor> / 10 ^ Precision"

definition direct_call :: "(MathSize \<Rightarrow> MathSize) \<Rightarrow> nat \<Rightarrow> MathSize \<Rightarrow> MathSize" where
  "direct_call Fct Precision v = Fct (truncate_to_precision Precision v)"

section \<open>The fuel lookup table (FuelType.h, \<open>FuelLookupImpl\<close> and \<open>FuelLookup::Fuels\<close>)\<close>

text \<open>
  A fuel is an object of one of the FBP classes, built with a code and a name; the
  mixed-wood classes are templates over a percentage. The object is represented by its
  class (with the template argument), its code and its name; the pointers from a
  combined fuel to its two parts are not represented.
\<close>

datatype FuelClass = InvalidFuel | FuelC1 | FuelC2 | FuelC3 | FuelC4 | FuelC5 | FuelC6 | FuelC7 | FuelD1 | FuelD2 | FuelO1A | FuelO1B | FuelS1 | FuelS2 | FuelS3 | FuelD1D2 | FuelM1 nat | FuelM2 nat | FuelM1M2 nat | FuelM3 nat | FuelM4 nat | FuelM3M4 nat | FuelO1

record FuelType =
  fuel_class :: FuelClass
  code :: FuelCodeSize
  name :: string

definition FuelType_new :: "FuelClass \<Rightarrow> FuelCodeSize \<Rightarrow> string \<Rightarrow> FuelType" where
  "FuelType_new c n s = \<lparr>fuel_class = c, code = n, name = s\<rparr>"

definition INVALID_FUEL_CODE :: FuelCodeSize where
  "INVALID_FUEL_CODE = 0"

text \<open>A \<open>const FuelType*\<close> that may be null is a \<open>FuelType option\<close>.\<close>

definition safeCode :: "FuelType option \<Rightarrow> FuelCodeSize" where
  "safeCode fuel = (case fuel of None \<Rightarrow> INVALID_FUEL_CODE | Some f \<Rightarrow> code f)"

definition safeName :: "FuelType option \<Rightarrow> string" where
  "safeName fuel = (case fuel of None \<Rightarrow> ''NULL'' | Some f \<Rightarrow> name f)"

text \<open>The static fuel objects that the constructor names.\<close>

definition M1_05 :: FuelType where
  "M1_05 = FuelType_new (FuelM1 5) 17 ''M-1 (05 PC)''"

definition M2_05 :: FuelType where
  "M2_05 = FuelType_new (FuelM2 5) 36 ''M-2 (05 PC)''"

definition M1_M2_05 :: FuelType where
  "M1_M2_05 = FuelType_new (FuelM1M2 5) 55 ''M-1/M-2 (05 PC)''"

definition M3_05 :: FuelType where
  "M3_05 = FuelType_new (FuelM3 5) 74 ''M-3 (05 PDF)''"

definition M4_05 :: FuelType where
  "M4_05 = FuelType_new (FuelM4 5) 94 ''M-4 (05 PDF)''"

definition M3_M4_05 :: FuelType where
  "M3_M4_05 = FuelType_new (FuelM3M4 5) 114 ''M-3/M-4 (05 PDF)''"

definition NULL_FUEL :: FuelType where
  "NULL_FUEL = FuelType_new InvalidFuel 0 ''Non-fuel''"

definition INVALID :: FuelType where
  "INVALID = FuelType_new InvalidFuel 1 ''Invalid''"

text \<open>
  Modelled from the spec: the classes \<open>FuelC1\<close> to \<open>FuelS3\<close> and \<open>FuelD1D2\<close> are declared
  in FBP45.h, which is not part of the sources at hand, and set the names of the fifteen
  objects built from a code alone (codes 2 to 16); the names used here are the fuel-type
  names of the table \<open>DEFAULT_TYPES\<close> of the same file. Every other name is the one the
  object's definition gives.
  The list is \<open>FuelLookup::Fuels\<close>, in the order of its initialiser; a static fuel object
  that the constructor does not name is written in place, with the code of its
  definition. The initialiser lists \<open>M3_M4_00\<close> (code 139) before \<open>M3_M4_05\<close> and
  \<open>M3_M4_100\<close> (code 133) after \<open>M4_00\<close>, so from index 114 on the position of a fuel is
  not always its code.
\<close>

definition Fuels :: "FuelType list" where
  "Fuels =
    [NULL_FUEL,
     INVALID,
     FuelType_new FuelC1 2 ''C-1'',
     FuelType_new FuelC2 3 ''C-2'',
     FuelType_new FuelC3 4 ''C-3'',
     FuelType_new FuelC4 5 ''C-4'',
     FuelType_new FuelC5 6 ''C-5'',
     FuelType_new FuelC6 7 ''C-6'',
     FuelType_new FuelC7 8 ''C-7'',
     FuelType_new FuelD1 9 ''D-1'',
     FuelType_new FuelD2 10 ''D-2'',
     FuelType_new FuelO1A 11 ''O-1a'',
     FuelType_new FuelO1B 12 ''O-1b'',
     FuelType_new FuelS1 13 ''S-1'',
     FuelType_new FuelS2 14 ''S-2'',
     FuelType_new FuelS3 15 ''S-3'',
     FuelType_new FuelD1D2 16 ''D-1/D-2'',
     M1_05,
     FuelType_new (FuelM1 10) 18 ''M-1 (10 PC)'',
     FuelType_new (FuelM1 15) 19 ''M-1 (15 PC)'',
     FuelType_new (FuelM1 20) 20 ''M-1 (20 PC)'',
     FuelType_new (FuelM1 25) 21 ''M-1 (25 PC)'',
     FuelType_new (FuelM1 30) 22 ''M-1 (30 PC)'',
     FuelType_new (FuelM1 35) 23 ''M-1 (35 PC)'',
     FuelType_new (FuelM1 40) 24 ''M-1 (40 PC)'',
     FuelType_new (FuelM1 45) 25 ''M-1 (45 PC)'',
     FuelType_new (FuelM1 50) 26 ''M-1 (50 PC)'',
     FuelType_new (FuelM1 55) 27 ''M-1 (55 PC)'',
     FuelType_new (FuelM1 60) 28 ''M-1 (60 PC)'',
     FuelType_new (FuelM1 65) 29 ''M-1 (65 PC)'',
     FuelType_new (FuelM1 70) 30 ''M-1 (70 PC)'',
     FuelType_new (FuelM1 75) 31 ''M-1 (75 PC)'',
     FuelType_new (FuelM1 80) 32 ''M-1 (80 PC)'',
     FuelType_new (FuelM1 85) 33 ''M-1 (85 PC)'',
     FuelType_new (FuelM1 90) 34 ''M-1 (90 PC)'',
     FuelType_new (FuelM1 95) 35 ''M-1 (95 PC)'',
     M2_05,
     FuelType_new (FuelM2 10) 37 ''M-2 (10 PC)'',
     FuelType_new (FuelM2 15) 38 ''M-2 (15 PC)'',
     FuelType_new (FuelM2 20) 39 ''M-2 (20 PC)'',
     FuelType_new (FuelM2 25) 40 ''M-2 (25 PC)'',
     FuelType_new (FuelM2 30) 41 ''M-2 (30 PC)'',
     FuelType_new (FuelM2 35) 42 ''M-2 (35 PC)'',
     FuelType_new (FuelM2 40) 43 ''M-2 (40 PC)'',
     FuelType_new (FuelM2 45) 44 ''M-2 (45 PC)'',
     FuelType_new (FuelM2 50) 45 ''M-2 (50 PC)'',
     FuelType_new (FuelM2 55) 46 ''M-2 (55 PC)'',
     FuelType_new (FuelM2 60) 47 ''M-2 (60 PC)'',
     FuelType_new (FuelM2 65) 48 ''M-2 (65 PC)'',
     FuelType_new (FuelM2 70) 49 ''M-2 (70 PC)'',
     FuelType_new (FuelM2 75) 50 ''M-2 (75 PC)'',
     FuelType_new (FuelM2 80) 51 ''M-2 (80 PC)'',
     FuelType_new (FuelM2 85) 52 ''M-2 (85 PC)'',
     FuelType_new (FuelM2 90) 53 ''M-2 (90 PC)'',
     FuelType_new (FuelM2 95) 54 ''M-2 (95 PC)'',
     M1_M2_05,
     FuelType_new (FuelM1M2 10) 56 ''M-1/M-2 (10 PC)'',
     FuelType_new (FuelM1M2 15) 57 ''M-1/M-2 (15 PC)'',
     FuelType_new (FuelM1M2 20) 58 ''M-1/M-2 (20 PC)'',
     FuelType_new (FuelM1M2 25) 59 ''M-1/M-2 (25 PC)'',
     FuelType_new (FuelM1M2 30) 60 ''M-1/M-2 (30 PC)'',
     FuelType_new (FuelM1M2 35) 61 ''M-1/M-2 (35 PC)'',
     FuelType_new (FuelM1M2 40) 62 ''M-1/M-2 (40 PC)'',
     FuelType_new (FuelM1M2 45) 63 ''M-1/M-2 (45 PC)'',
     FuelType_new (FuelM1M2 50) 64 ''M-1/M-2 (50 PC)'',
     FuelType_new (FuelM1M2 55) 65 ''M-1/M-2 (55 PC)'',
     FuelType_new (FuelM1M2 60) 66 ''M-1/M-2 (60 PC)'',
     FuelType_new (FuelM1M2 65) 67 ''M-1/M-2 (65 PC)'',
     FuelType_new (FuelM1M2 70) 68 ''M-1/M-2 (70 PC)'',
     FuelType_new (FuelM1M2 75) 69 ''M-1/M-2 (75 PC)'',
     FuelType_new (FuelM1M2 80) 70 ''M-1/M-2 (80 PC)'',
     FuelType_new (FuelM1M2 85) 71 ''M-1/M-2 (85 PC)'',
     FuelType_new (FuelM1M2 90) 72 ''M-1/M-2 (90 PC)'',
     FuelType_new (FuelM1M2 95) 73 ''M-1/M-2 (95 PC)'',
     M3_05,
     FuelType_new (FuelM3 10) 75 ''M-3 (10 PDF)'',
     FuelType_new (FuelM3 15) 76 ''M-3 (15 PDF)'',
     FuelType_new (FuelM3 20) 77 ''M-3 (20 PDF)'',
     FuelType_new (FuelM3 25) 78 ''M-3 (25 PDF)'',
     FuelType_new (FuelM3 30) 79 ''M-3 (30 PDF)'',
     FuelType_new (FuelM3 35) 80 ''M-3 (35 PDF)'',
     FuelType_new (FuelM3 40) 81 ''M-3 (40 PDF)'',
     FuelType_new (FuelM3 45) 82 ''M-3 (45 PDF)'',
     FuelType_new (FuelM3 50) 83 ''M-3 (50 PDF)'',
     FuelType_new (FuelM3 55) 84 ''M-3 (55 PDF)'',
     FuelType_new (FuelM3 60) 85 ''M-3 (60 PDF)'',
     FuelType_new (FuelM3 65) 86 ''M-3 (65 PDF)'',
     FuelType_new (FuelM3 70) 87 ''M-3 (70 PDF)'',
     FuelType_new (FuelM3 75) 88 ''M-3 (75 PDF)'',
     FuelType_new (FuelM3 80) 89 ''M-3 (80 PDF)'',
     FuelType_new (FuelM3 85) 90 ''M-3 (85 PDF)'',
     FuelType_new (FuelM3 90) 91 ''M-3 (90 PDF)'',
     FuelType_new (FuelM3 95) 92 ''M-3 (95 PDF)'',
     FuelType_new (FuelM3 100) 93 ''M-3 (100 PDF)'',
     M4_05,
     FuelType_new (FuelM4 10) 95 ''M-4 (10 PDF)'',
     FuelType_new (FuelM4 15) 96 ''M-4 (15 PDF)'',
     FuelType_new (FuelM4 20) 97 ''M-4 (20 PDF)'',
     FuelType_new (FuelM4 25) 98 ''M-4 (25 PDF)'',
     FuelType_new (FuelM4 30) 99 ''M-4 (30 PDF)'',
     FuelType_new (FuelM4 35) 100 ''M-4 (35 PDF)'',
     FuelType_new (FuelM4 40) 101 ''M-4 (40 PDF)'',
     FuelType_new (FuelM4 45) 102 ''M-4 (45 PDF)'',
     FuelType_new (FuelM4 50) 103 ''M-4 (50 PDF)'',
     FuelType_new (FuelM4 55) 104 ''M-4 (55 PDF)'',
     FuelType_new (FuelM4 60) 105 ''M-4 (60 PDF)'',
     FuelType_new (FuelM4 65) 106 ''M-4 (65 PDF)'',
     FuelType_new (FuelM4 70) 107 ''M-4 (70 PDF)'',
     FuelType_new (FuelM4 75) 108 ''M-4 (75 PDF)'',
     FuelType_new (FuelM4 80) 109 ''M-4 (80 PDF)'',
     FuelType_new (FuelM4 85) 110 ''M-4 (85 PDF)'',
     FuelType_new (FuelM4 90) 111 ''M-4 (90 PDF)'',
     FuelType_new (FuelM4 95) 112 ''M-4 (95 PDF)'',
     FuelType_new (FuelM4 100) 113 ''M-4 (100 PDF)'',
     FuelType_new (FuelM3M4 0) 139 ''M-3/M-4 (00 PDF)'',
     M3_M4_05,
     FuelType_new (FuelM3M4 10) 115 ''M-3/M-4 (10 PDF)'',
     FuelType_new (FuelM3M4 15) 116 ''M-3/M-4 (15 PDF)'',
     FuelType_new (FuelM3M4 20) 117 ''M-3/M-4 (20 PDF)'',
     FuelType_new (FuelM3M4 25) 118 ''M-3/M-4 (25 PDF)'',
     FuelType_new (FuelM3M4 30) 119 ''M-3/M-4 (30 PDF)'',
     FuelType_new (FuelM3M4 35) 120 ''M-3/M-4 (35 PDF)'',
     FuelType_new (FuelM3M4 40) 121 ''M-3/M-4 (40 PDF)'',
     FuelType_new (FuelM3M4 45) 122 ''M-3/M-4 (45 PDF)'',
     FuelType_new (FuelM3M4 50) 123 ''M-3/M-4 (50 PDF)'',
     FuelType_new (FuelM3M4 55) 124 ''M-3/M-4 (55 PDF)'',
     FuelType_new (FuelM3M4 60) 125 ''M-3/M-4 (60 PDF)'',
     FuelType_new (FuelM3M4 65) 126 ''M-3/M-4 (65 PDF)'',
     FuelType_new (FuelM3M4 70) 127 ''M-3/M-4 (70 PDF)'',
     FuelType_new (FuelM3M4 75) 128 ''M-3/M-4 (75 PDF)'',
     FuelType_new (FuelM3M4 80) 129 ''M-3/M-4 (80 PDF)'',
     FuelType_new (FuelM3M4 85) 130 ''M-3/M-4 (85 PDF)'',
     FuelType_new (FuelM3M4 90) 131 ''M-3/M-4 (90 PDF)'',
     FuelType_new (FuelM3M4 95) 132 ''M-3/M-4 (95 PDF)'',
     FuelType_new (FuelM1 0) 134 ''M-1 (00 PC)'',
     FuelType_new (FuelM2 0) 135 ''M-2 (00 PC)'',
     FuelType_new (FuelM1M2 0) 136 ''M-1/M-2 (00 PC)'',
     FuelType_new (FuelM3 0) 137 ''M-3 (00 PDF)'',
     FuelType_new (FuelM4 0) 138 ''M-4 (00 PDF)'',
     FuelType_new (FuelM3M4 100) 133 ''M-3/M-4 (100 PDF)'',
     FuelType_new FuelO1 140 ''O-1'']"

text \<open>
  \<open>fuel_by_name_\<close> is an \<open>unordered_map\<close>, written as an association list in which a key
  occurs once: \<open>emplace\<close> leaves an existing key as it is. The second map, keyed by the
  simplified name, is filled beside it and read by nothing below; it is left out.
\<close>

record FuelLookupImpl =
  fuel_by_name :: "(string \<times> FuelType) list"

definition emplace :: "string \<Rightarrow> FuelType \<Rightarrow> (string \<times> FuelType) list \<Rightarrow> (string \<times> FuelType) list" where
  "emplace k v m = (if map_of m k = None then m @ [(k, v)] else m)"

definition emplaceFuel_named :: "string \<Rightarrow> FuelType \<Rightarrow> FuelLookupImpl \<Rightarrow> FuelLookupImpl" where
  "emplaceFuel_named n fuel this = this\<lparr>fuel_by_name := emplace n fuel (fuel_by_name this)\<rparr>"

definition emplaceFuel :: "FuelType \<Rightarrow> FuelLookupImpl \<Rightarrow> FuelLookupImpl" where
  "emplaceFuel fuel this = emplaceFuel_named (safeName (Some fuel)) fuel this"

definition byName :: "FuelLookupImpl \<Rightarrow> string \<Rightarrow> FuelType option" where
  "byName this n = map_of (fuel_by_name this) n"

text \<open>The \<open>%\<close> of C++ on \<open>int\<close>: the remainder of the division that truncates towards zero.\<close>

definition c_rem :: "int \<Rightarrow> int \<Rightarrow> int" where
  "c_rem a b = a - b * (sgn a * sgn b * (\<bar>a\<bar> div \<bar>b\<bar>))"

definition and_then :: "failure + 'a \<Rightarrow> ('a \<Rightarrow> failure + 'b) \<Rightarrow> failure + 'b" where
  "and_then r f = (case r of Inl e \<Rightarrow> Inl e | Inr x \<Rightarrow> f x)"

text \<open>
  The constructor of \<open>FuelLookupImpl\<close> up to the point where it opens the lookup file:
  it registers every fuel of \<open>Fuels\<close> under its name and then the six generic mixed-wood
  names. \<open>logging::check_fatal\<close> aborts when its condition holds; \<open>Fuels.at\<close> throws
  \<open>out_of_range\<close>. The offsets are \<open>size_t\<close> values: \<open>pdf / 5 - 1\<close> wraps at \<open>pdf = 0\<close>.
\<close>

definition FuelLookupImpl_new :: "Settings \<Rightarrow> failure + FuelLookupImpl" where
  "FuelLookupImpl_new settings =
    (let this = fold emplaceFuel Fuels \<lparr>fuel_by_name = []\<rparr>;
         pc = defaultPercentConifer settings
     in if 0 \<ge> pc \<or> 100 \<le> pc \<or> c_rem pc 5 \<noteq> 0
        then Inl (fatal ''Invalid default percent conifer (%d)'')
        else
          let pc_offset = (word_of_int pc :: size_t) div 5 - 1 in
          and_then (vector_at Fuels (pc_offset + word_of_nat (safeCode (Some M1_05)))) (\<lambda>f.
          let this = emplaceFuel_named ''M-1'' f this in
          and_then (vector_at Fuels (pc_offset + word_of_nat (safeCode (Some M2_05)))) (\<lambda>f.
          let this = emplaceFuel_named ''M-2'' f this in
          and_then (vector_at Fuels (pc_offset + word_of_nat (safeCode (Some M1_M2_05)))) (\<lambda>f.
          let this = emplaceFuel_named ''M-1/M-2'' f this;
              pdf = defaultPercentDeadFir settings
          in if 0 > pdf \<or> 100 < pdf \<or> c_rem pdf 5 \<noteq> 0
             then Inl (fatal ''Invalid default percent dead fir (%d)'')
             else
               let pdf_offset = (word_of_int pdf :: size_t) div 5 - 1 in
               and_then (vector_at Fuels (pdf_offset + word_of_nat (safeCode (Some M3_05)))) (\<lambda>f.
               let this = emplaceFuel_named ''M-3'' f this in
               and_then (vector_at Fuels (pdf_offset + word_of_nat (safeCode (Some M4_05)))) (\<lambda>f.
               let this = emplaceFuel_named ''M-4'' f this in
               and_then (vector_at Fuels (pdf_offset + word_of_nat (safeCode (Some M3_M4_05)))) (\<lambda>f.
               let this = emplaceFuel_named ''M-3/M-4'' f this in
               Inr this)))))))"

section \<open>The pool of burned-data buffers (Model.cpp, \<open>getBurnedVector\<close>, \<open>releaseBurnedVector\<close>)\<close>

text \<open>
  \<open>topo::Environment\<close> and \<open>BurnedData\<close> are declared in headers that are not part of the
  sources at hand. \<open>BurnedData\<close> is a type parameter, and the two members of the
  environment that the pool calls are parameters: \<open>makeBurnedData\<close> builds a buffer and
  \<open>resetBurnedData\<close> resets one in place (here: returns the buffer reset). Either may
  throw (\<open>None\<close>), which both functions answer with \<open>logging::fatal\<close> and
  \<open>std::terminate\<close>. A \<open>BurnedData*\<close> that may be null is an option. The pool owns its
  buffers (\<open>unique_ptr\<close>), so it holds them by value. Each call is one step: the pool
  is read and written under its mutex, and a released buffer is reset before that, while
  only the caller holds it.
\<close>

record 'b Environment =
  makeBurnedData :: "'b option"
  resetBurnedData :: "'b \<Rightarrow> 'b option"

record 'b Model_pool =
  vectors :: "'b list"

definition getBurnedVector :: "'b Environment \<Rightarrow> 'b Model_pool \<Rightarrow> failure + ('b \<times> 'b Model_pool)" where
  "getBurnedVector env model =
    (if vectors model \<noteq> [] \<and> vectors model \<noteq> []
     then
       let v = last (vectors model) in
       Inr (v, model\<lparr>vectors := butlast (vectors model)\<rparr>)
     else
       (case makeBurnedData env of
          None \<Rightarrow> Inl terminated
        | Some result \<Rightarrow> Inr (result, model)))"

definition releaseBurnedVector :: "'b Environment \<Rightarrow> 'b option \<Rightarrow> 'b Model_pool \<Rightarrow> failure + 'b Model_pool" where
  "releaseBurnedVector env has_burned model =
    (case has_burned of
       None \<Rightarrow> Inr model
     | Some b \<Rightarrow>
         (case resetBurnedData env b of
            None \<Rightarrow> Inl terminated
          | Some b' \<Rightarrow> Inr (model\<lparr>vectors := vectors model @ [b']\<rparr>)))"

text \<open>
  A run of the pool: any sequence of the two calls, from a given pool. It returns the
  buffers that \<open>getBurnedVector\<close> handed out, in order, and the pool at the end.
\<close>

datatype 'b pool_call = Get | Release "'b option"

fun run_pool :: "'b Environment \<Rightarrow> 'b pool_call list \<Rightarrow> 'b Model_pool \<Rightarrow> failure + ('b list \<times> 'b Model_pool)" where
  "run_pool env [] model = Inr ([], model)"
| "run_pool env (Get # calls) model =
    (case getBurnedVector env model of
       Inl e \<Rightarrow> Inl e
     | Inr (b, model') \<Rightarrow>
         (case run_pool env calls model' of
            Inl e \<Rightarrow> Inl e
          | Inr (bs, model'') \<Rightarrow> Inr (b # bs, model'')))"
| "run_pool env (Release p # calls) model =
    (case releaseBurnedVector env p model of
       Inl e \<Rightarrow> Inl e
     | Inr model' \<Rightarrow> run_pool env calls model')"

text \<open>
  A buffer carries no state of an earlier scenario when it is fresh from
  \<open>makeBurnedData\<close> or is what \<open>resetBurnedData\<close> returned.
\<close>

definition fresh_or_reset :: "'b Environment \<Rightarrow> 'b \<Rightarrow> bool" where
  "fresh_or_reset env b = (makeBurnedData env = Some b \<or> (\<exists>b0. resetBurnedData env b0 = Some b))"

section \<open>The probability aggregator (ProbabilityMap.h; specification 4.5)\<close>

text \<open>
  Modelled from the spec: ProbabilityMap.cpp, which defines \<open>addProbability\<close>,
  \<open>addProbabilities\<close> and \<open>reset\<close>, is not part of the sources at hand; the header gives
  the members and the documentation of the three operations. The four grids \<open>all_\<close>,
  \<open>high_\<close>, \<open>med_\<close> and \<open>low_\<close> (here with the prefix \<open>pm\<close>) hold a \<open>size_t\<close> count per
  cell (0 where nothing is stored). An intensity map lists cells with their intensity.
  \<open>addProbability\<close> follows the specification: a cell of intensity zero is skipped;
  otherwise its category (low up to \<open>low_max\<close>, moderate up to \<open>med_max\<close>, high up to
  \<open>max\<close>) is incremented and the total is incremented. The specification names no
  category for an intensity above \<open>max\<close>; the model aborts there, so that no count is
  invented. \<open>addProbabilities\<close> combines the results of another map into this one (the
  counts are added cell by cell) and \<open>reset\<close> clears the maps.
\<close>

type_synonym Location = nat
type_synonym IntensitySize = nat
type_synonym IntensityMap = "(Location \<times> IntensitySize) list"

record ProbabilityMap =
  pm_all :: "Location \<Rightarrow> size_t"
  pm_high :: "Location \<Rightarrow> size_t"
  pm_med :: "Location \<Rightarrow> size_t"
  pm_low :: "Location \<Rightarrow> size_t"
  pm_max_value :: IntensitySize
  pm_low_max :: IntensitySize
  pm_med_max :: IntensitySize

definition ProbabilityMap_new :: "IntensitySize \<Rightarrow> IntensitySize \<Rightarrow> IntensitySize \<Rightarrow> ProbabilityMap" where
  "ProbabilityMap_new lo_max md_max mx =
    \<lparr>pm_all = (\<lambda>_. 0), pm_high = (\<lambda>_. 0), pm_med = (\<lambda>_. 0), pm_low = (\<lambda>_. 0),
     pm_max_value = mx, pm_low_max = lo_max, pm_med_max = md_max\<rparr>"

definition add_cell :: "ProbabilityMap \<Rightarrow> Location \<times> IntensitySize \<Rightarrow> failure + ProbabilityMap" where
  "add_cell pm kv =
    (let k = fst kv; v = snd kv in
     if v = 0 then Inr pm
     else if v \<le> pm_low_max pm
       then Inr (pm\<lparr>pm_low := (pm_low pm)(k := pm_low pm k + 1), pm_all := (pm_all pm)(k := pm_all pm k + 1)\<rparr>)
     else if v \<le> pm_med_max pm
       then Inr (pm\<lparr>pm_med := (pm_med pm)(k := pm_med pm k + 1), pm_all := (pm_all pm)(k := pm_all pm k + 1)\<rparr>)
     else if v \<le> pm_max_value pm
       then Inr (pm\<lparr>pm_high := (pm_high pm)(k := pm_high pm k + 1), pm_all := (pm_all pm)(k := pm_all pm k + 1)\<rparr>)
     else Inl (fatal ''intensity above the high range''))"

fun addProbability :: "ProbabilityMap \<Rightarrow> IntensityMap \<Rightarrow> failure + ProbabilityMap" where
  "addProbability pm [] = Inr pm"
| "addProbability pm (kv # for_time) =
    (case add_cell pm kv of
       Inl e \<Rightarrow> Inl e
     | Inr pm' \<Rightarrow> addProbability pm' for_time)"

definition addProbabilities :: "ProbabilityMap \<Rightarrow> ProbabilityMap \<Rightarrow> ProbabilityMap" where
  "addProbabilities pm rhs =
    pm\<lparr>pm_all := (\<lambda>k. pm_all pm k + pm_all rhs k),
       pm_high := (\<lambda>k. pm_high pm k + pm_high rhs k),
       pm_med := (\<lambda>k. pm_med pm k + pm_med rhs k),
       pm_low := (\<lambda>k. pm_low pm k + pm_low rhs k)\<rparr>"

definition reset :: "ProbabilityMap \<Rightarrow> ProbabilityMap" where
  "reset pm = pm\<lparr>pm_all := (\<lambda>_. 0), pm_high := (\<lambda>_. 0), pm_med := (\<lambda>_. 0), pm_low := (\<lambda>_. 0)\<rparr>"

text \<open>
  The maps that a sequence of the three operations builds, from a newly constructed map;
  the argument of \<open>addProbabilities\<close> is such a map as well.
\<close>

inductive built :: "ProbabilityMap \<Rightarrow> bool" where
  built_new: "built (ProbabilityMap_new lo_max md_max mx)"
| built_addProbability: "built pm \<Longrightarrow> addProbability pm for_time = Inr pm' \<Longrightarrow> built pm'"
| built_addProbabilities: "built pm \<Longrightarrow> built rhs \<Longrightarrow> built (addProbabilities pm rhs)"
| built_reset: "built pm \<Longrightarrow> built (reset pm)"

section \<open>Sunrise and sunset (StartPoint.cpp, \<open>sunrise_sunset\<close>)\<close>

text \<open>
  The two loops of \<open>fix_range\<close>. A loop that does not end has no result (\<open>None\<close>).
\<close>

partial_function (option) fix_range_raise :: "real \<Rightarrow> real \<Rightarrow> real \<Rightarrow> real option" where
  "fix_range_raise v min_value max_value =
    (if v < min_value then fix_range_raise (v + max_value) min_value max_value else Some v)"

partial_function (option) fix_range_lower :: "real \<Rightarrow> real \<Rightarrow> real option" where
  "fix_range_lower v max_value =
    (if v \<ge> max_value then fix_range_lower (v - max_value) max_value else Some v)"

definition fix_range :: "real \<Rightarrow> real \<Rightarrow> real \<Rightarrow> real option" where
  "fix_range v min_value max_value =
    (case fix_range_raise v min_value max_value of
       None \<Rightarrow> None
     | Some v' \<Rightarrow> fix_range_lower v' max_value)"

definition fix_degrees :: "real \<Rightarrow> real option" where
  "fix_degrees v = fix_range v 0.0 360.0"

definition fix_hours :: "real \<Rightarrow> real option" where
  "fix_hours v = fix_range v 0.0 24.0"

text \<open>
  \<open>_sin\<close> and \<open>_cos\<close> are declared in unstable.h, which is not part of the sources at
  hand; they are the parameters \<open>usin\<close> and \<open>ucos\<close>. The first part of \<open>sunrise_sunset\<close>
  computes the sun's true longitude \<open>l\<close>, its right ascension \<open>ra\<close> (in hours) and
  \<open>cos_h\<close>; the second part decides on \<open>cos_h\<close>. A division by zero, which the source
  answers with an infinity or NaN, is outside the model.
\<close>

record sun_position =
  sun_t :: real
  sun_lng_hour :: real
  sun_ra :: real
  sun_cos_h :: real

definition sunrise_sunset_cos_h ::
  "(real \<Rightarrow> real) \<Rightarrow> (real \<Rightarrow> real) \<Rightarrow> int \<Rightarrow> MathSize \<Rightarrow> MathSize \<Rightarrow> bool \<Rightarrow> sun_position option" where
  "sunrise_sunset_cos_h usin ucos jd latitude longitude for_sunrise =
    (let Zenith = to_radians 96;
         t_hour = (if for_sunrise then 6 else 18 :: real);
         lng_hour = longitude / 15;
         t = real_of_int jd + (t_hour - lng_hour) / 24;
         m = 0.9856 * t - 3.289
     in case fix_degrees (m + 1.916 * usin (to_radians m) + 0.020 * usin (to_radians (2 * m)) + 282.634) of
          None \<Rightarrow> None
        | Some l \<Rightarrow>
            (case fix_degrees (to_degrees (arctan (0.91764 * tan (to_radians l)))) of
               None \<Rightarrow> None
             | Some ra0 \<Rightarrow>
                 let l_quadrant = real_of_int \<lfloor>l / 90\<rfloor> * 90;
                     ra_quadrant = real_of_int \<lfloor>ra0 / 90\<rfloor> * 90;
                     ra1 = ra0 + (l_quadrant - ra_quadrant);
                     ra = ra1 / 15;
                     sin_dec = 0.39782 * usin (to_radians l);
                     cos_dec = ucos (arcsin sin_dec);
                     cos_h = (ucos Zenith - sin_dec * usin (to_radians latitude))
                             / (cos_dec * ucos (to_radians latitude))
                 in Some \<lparr>sun_t = t, sun_lng_hour = lng_hour, sun_ra = ra, sun_cos_h = cos_h\<rparr>))"

definition sunrise_sunset ::
  "(real \<Rightarrow> real) \<Rightarrow> (real \<Rightarrow> real) \<Rightarrow> int \<Rightarrow> MathSize \<Rightarrow> MathSize \<Rightarrow> bool \<Rightarrow> DurationSize option" where
  "sunrise_sunset usin ucos jd latitude longitude for_sunrise =
    (let LocalOffset = -5 in
     case sunrise_sunset_cos_h usin ucos jd latitude longitude for_sunrise of
       None \<Rightarrow> None
     | Some p \<Rightarrow>
         if sun_cos_h p > 1 then Some (if for_sunrise then -1 else 25)
         else if sun_cos_h p < -1 then Some (if for_sunrise then 25 else -1)
         else
           let h0 = to_degrees (arccos (sun_cos_h p));
               h1 = (if for_sunrise then 360 - h0 else h0);
               h = h1 / 15;
               mean_t = h + sun_ra p - 0.06571 * sun_t p - 6.622;
               ut = mean_t - sun_lng_hour p
           in fix_hours (ut + LocalOffset))"

definition sunrise :: "(real \<Rightarrow> real) \<Rightarrow> (real \<Rightarrow> real) \<Rightarrow> int \<Rightarrow> MathSize \<Rightarrow> MathSize \<Rightarrow> DurationSize option" where
  "sunrise usin ucos jd latitude longitude = sunrise_sunset usin ucos jd latitude longitude True"

definition sunset :: "(real \<Rightarrow> real) \<Rightarrow> (real \<Rightarrow> real) \<Rightarrow> int \<Rightarrow> MathSize \<Rightarrow> MathSize \<Rightarrow> DurationSize option" where
  "sunset usin ucos jd latitude longitude = sunrise_sunset usin ucos jd latitude longitude False"

section \<open>Theorems\<close>

subsection \<open>Stopping rule\<close>

text \<open>
  C2. \<open>runs_required\<close> returns 0 when the run is deterministic, or the simulation-count
  limit has been reached, or the time limit has been reached, or all three statistics
  (all sizes, per-iteration means, per-iteration 95th percentiles) are confident at the
  configured level; in every other case it returns the maximum of the three
  \<open>runsRequired\<close> values.
\<close>

theorem runs_required_stop_or_max:
  "runs_required isConfident runsRequired settings i all_sizes means pct model =
    (if deterministic settings
        \<or> isOverSimulationCountLimit model
        \<or> isOutOfTime model
        \<or> (isConfident all_sizes (confidenceLevel settings)
            \<and> isConfident means (confidenceLevel settings)
            \<and> isConfident pct (confidenceLevel settings))
     then 0
     else Max {runsRequired all_sizes (confidenceLevel settings),
               runsRequired means (confidenceLevel settings),
               runsRequired pct (confidenceLevel settings)})"
  by (auto simp: runs_required_def Let_def max.commute max.left_commute)

theorem runs_required_stop_or_max_witness:
  "runs_required (\<lambda>xs l. False) (\<lambda>xs l. word_of_nat (length xs))
      \<lparr>deterministic = False, runAsync = True, confidenceLevel = 0.2,
        defaultPercentConifer = 50, defaultPercentDeadFir = 50\<rparr>
      1 [1, 2, 3] [2] [3, 4] \<lparr>is_out_of_time = False, is_over_simulation_count = False\<rparr> = 3
   \<and> runs_required (\<lambda>xs l. True) (\<lambda>xs l. word_of_nat (length xs))
      \<lparr>deterministic = False, runAsync = True, confidenceLevel = 0.2,
        defaultPercentConifer = 50, defaultPercentDeadFir = 50\<rparr>
      1 [1, 2, 3] [2] [3, 4] \<lparr>is_out_of_time = False, is_over_simulation_count = False\<rparr> = 0"
  using runs_required_stop_or_max [of "\<lambda>xs l. False" "\<lambda>xs l. word_of_nat (length xs)"
      "\<lparr>deterministic = False, runAsync = True, confidenceLevel = 0.2,
        defaultPercentConifer = 50, defaultPercentDeadFir = 50\<rparr>"
      1 "[1, 2, 3]" "[2]" "[3, 4]" "\<lparr>is_out_of_time = False, is_over_simulation_count = False\<rparr>"]
    runs_required_stop_or_max [of "\<lambda>xs l. True" "\<lambda>xs l. word_of_nat (length xs)"
      "\<lparr>deterministic = False, runAsync = True, confidenceLevel = 0.2,
        defaultPercentConifer = 50, defaultPercentDeadFir = 50\<rparr>"
      1 "[1, 2, 3]" "[2]" "[3, 4]" "\<lparr>is_out_of_time = False, is_over_simulation_count = False\<rparr>"]
  by (simp add: isOutOfTime_def isOverSimulationCountLimit_def)

subsection \<open>Survival\<close>

text \<open>
  C1. In deterministic mode \<open>survives\<close> returns true. Otherwise, with the weather at \<open>t\<close>
  there: when the DMC moisture content is below the piecewise limits (\<open>mc < 100\<close>, or
  \<open>mc \<le> 109\<close> with \<open>d < 5\<close>, or \<open>mc \<le> 119\<close> with \<open>d < 4\<close>, or \<open>mc \<le> 131\<close> with \<open>d < 3\<close>,
  or \<open>mc \<le> 145\<close> with \<open>d < 2\<close>, or \<open>mc \<le> 218\<close> with \<open>d < 1\<close>) it returns true, whatever
  the thresholds and the probabilities hold; when it is not, the result is whether the
  scenario's extinction threshold at \<open>t\<close>, the entry of the threshold vector at the
  hour index of \<open>t - start_day\<close>, is strictly less than the survival probability of the
  cell's fuel at \<open>t\<close>, and it is false when that index is past the end of the vector or
  the probability lookup throws \<open>out_of_range\<close>. When the weather lookup at \<open>t\<close> throws
  \<open>out_of_range\<close> the result is false.
\<close>

theorem survives_deterministic_limits_threshold:
  "(deterministic settings \<longrightarrow> survives settings scenario t cell d = Inr True)
   \<and> (\<not> deterministic settings
        \<and> at_wx (weather scenario) t = Inr (Some wx)
        \<and> (mcDmcPct wx < 100
             \<or> (mcDmcPct wx \<le> 109 \<and> d < 5)
             \<or> (mcDmcPct wx \<le> 119 \<and> d < 4)
             \<or> (mcDmcPct wx \<le> 131 \<and> d < 3)
             \<or> (mcDmcPct wx \<le> 145 \<and> d < 2)
             \<or> (mcDmcPct wx \<le> 218 \<and> d < 1))
      \<longrightarrow> survives settings scenario t cell d = Inr True)
   \<and> (\<not> deterministic settings
        \<and> at_wx (weather scenario) t = Inr (Some wx)
        \<and> \<not> (mcDmcPct wx < 100
               \<or> (mcDmcPct wx \<le> 109 \<and> d < 5)
               \<or> (mcDmcPct wx \<le> 119 \<and> d < 4)
               \<or> (mcDmcPct wx \<le> 131 \<and> d < 3)
               \<or> (mcDmcPct wx \<le> 145 \<and> d < 2)
               \<or> (mcDmcPct wx \<le> 218 \<and> d < 1))
        \<and> time_index (t - real (start_day scenario)) = Inr i
        \<and> unat i < length (extinction_thresholds scenario)
        \<and> survivalProbability (weather scenario) t (fuelCode cell) = Inr probability
      \<longrightarrow> survives settings scenario t cell d =
            Inr (extinction_thresholds scenario ! unat i < probability))
   \<and> (\<not> deterministic settings
        \<and> at_wx (weather scenario) t = Inr (Some wx)
        \<and> \<not> (mcDmcPct wx < 100
               \<or> (mcDmcPct wx \<le> 109 \<and> d < 5)
               \<or> (mcDmcPct wx \<le> 119 \<and> d < 4)
               \<or> (mcDmcPct wx \<le> 131 \<and> d < 3)
               \<or> (mcDmcPct wx \<le> 145 \<and> d < 2)
               \<or> (mcDmcPct wx \<le> 218 \<and> d < 1))
        \<and> time_index (t - real (start_day scenario)) = Inr i
        \<and> (length (extinction_thresholds scenario) \<le> unat i
             \<or> survivalProbability (weather scenario) t (fuelCode cell) = Inl out_of_range)
      \<longrightarrow> survives settings scenario t cell d = Inr False)
   \<and> (\<not> deterministic settings \<and> at_wx (weather scenario) t = Inl out_of_range
      \<longrightarrow> survives settings scenario t cell d = Inr False)"
proof (intro conjI impI)
  assume "deterministic settings"
  then show "survives settings scenario t cell d = Inr True"
    by (simp add: survives_def)
next
  assume "\<not> deterministic settings
        \<and> at_wx (weather scenario) t = Inr (Some wx)
        \<and> (mcDmcPct wx < 100
             \<or> (mcDmcPct wx \<le> 109 \<and> d < 5)
             \<or> (mcDmcPct wx \<le> 119 \<and> d < 4)
             \<or> (mcDmcPct wx \<le> 131 \<and> d < 3)
             \<or> (mcDmcPct wx \<le> 145 \<and> d < 2)
             \<or> (mcDmcPct wx \<le> 218 \<and> d < 1))"
  then show "survives settings scenario t cell d = Inr True"
    by (auto simp: survives_def survives_try_def Let_def)
next
  assume a: "\<not> deterministic settings
        \<and> at_wx (weather scenario) t = Inr (Some wx)
        \<and> \<not> (mcDmcPct wx < 100
               \<or> (mcDmcPct wx \<le> 109 \<and> d < 5)
               \<or> (mcDmcPct wx \<le> 119 \<and> d < 4)
               \<or> (mcDmcPct wx \<le> 131 \<and> d < 3)
               \<or> (mcDmcPct wx \<le> 145 \<and> d < 2)
               \<or> (mcDmcPct wx \<le> 218 \<and> d < 1))
        \<and> time_index (t - real (start_day scenario)) = Inr i
        \<and> unat i < length (extinction_thresholds scenario)
        \<and> survivalProbability (weather scenario) t (fuelCode cell) = Inr probability"
  then have "extinctionThreshold scenario t = Inr (extinction_thresholds scenario ! unat i)"
    by (simp add: extinctionThreshold_def vector_at_def)
  with a show "survives settings scenario t cell d =
            Inr (extinction_thresholds scenario ! unat i < probability)"
    by (auto simp: survives_def survives_try_def Let_def)
next
  assume a: "\<not> deterministic settings
        \<and> at_wx (weather scenario) t = Inr (Some wx)
        \<and> \<not> (mcDmcPct wx < 100
               \<or> (mcDmcPct wx \<le> 109 \<and> d < 5)
               \<or> (mcDmcPct wx \<le> 119 \<and> d < 4)
               \<or> (mcDmcPct wx \<le> 131 \<and> d < 3)
               \<or> (mcDmcPct wx \<le> 145 \<and> d < 2)
               \<or> (mcDmcPct wx \<le> 218 \<and> d < 1))
        \<and> time_index (t - real (start_day scenario)) = Inr i
        \<and> (length (extinction_thresholds scenario) \<le> unat i
             \<or> survivalProbability (weather scenario) t (fuelCode cell) = Inl out_of_range)"
  then have "extinctionThreshold scenario t = Inl out_of_range
      \<or> (extinctionThreshold scenario t = Inr (extinction_thresholds scenario ! unat i)
          \<and> survivalProbability (weather scenario) t (fuelCode cell) = Inl out_of_range)"
    by (auto simp: extinctionThreshold_def vector_at_def)
  with a show "survives settings scenario t cell d = Inr False"
    by (auto simp: survives_def survives_try_def Let_def)
next
  assume "\<not> deterministic settings \<and> at_wx (weather scenario) t = Inl out_of_range"
  then show "survives settings scenario t cell d = Inr False"
    by (simp add: survives_def survives_try_def Let_def)
qed

text \<open>
  A scenario that starts on day 100 with thresholds for two hours, wet duff before day
  101, dry duff from then to day 200 and no weather after. Dry duff survives although
  the threshold vector has long ended.
\<close>

theorem survives_deterministic_limits_threshold_witness:
  "survives \<lparr>deterministic = True, runAsync = True, confidenceLevel = 0.2,
        defaultPercentConifer = 50, defaultPercentDeadFir = 50\<rparr>
      \<lparr>weather = \<lparr>at_wx = (\<lambda>t. if t < 101 then Inr (Some \<lparr>mcDmcPct = 150\<rparr>)
                                else if t < 200 then Inr (Some \<lparr>mcDmcPct = 50\<rparr>)
                                else Inl out_of_range),
                   survivalProbability = (\<lambda>t f. Inr (1 / 2))\<rparr>,
        extinction_thresholds = [1 / 4, 3 / 4], start_day = 100\<rparr>
      300 \<lparr>fuelCode = 3\<rparr> 3 = Inr True
   \<and> survives \<lparr>deterministic = False, runAsync = True, confidenceLevel = 0.2,
        defaultPercentConifer = 50, defaultPercentDeadFir = 50\<rparr>
      \<lparr>weather = \<lparr>at_wx = (\<lambda>t. if t < 101 then Inr (Some \<lparr>mcDmcPct = 150\<rparr>)
                                else if t < 200 then Inr (Some \<lparr>mcDmcPct = 50\<rparr>)
                                else Inl out_of_range),
                   survivalProbability = (\<lambda>t f. Inr (1 / 2))\<rparr>,
        extinction_thresholds = [1 / 4, 3 / 4], start_day = 100\<rparr>
      150 \<lparr>fuelCode = 3\<rparr> 3 = Inr True
   \<and> survives \<lparr>deterministic = False, runAsync = True, confidenceLevel = 0.2,
        defaultPercentConifer = 50, defaultPercentDeadFir = 50\<rparr>
      \<lparr>weather = \<lparr>at_wx = (\<lambda>t. if t < 101 then Inr (Some \<lparr>mcDmcPct = 150\<rparr>)
                                else if t < 200 then Inr (Some \<lparr>mcDmcPct = 50\<rparr>)
                                else Inl out_of_range),
                   survivalProbability = (\<lambda>t f. Inr (1 / 2))\<rparr>,
        extinction_thresholds = [1 / 4, 3 / 4], start_day = 100\<rparr>
      100 \<lparr>fuelCode = 3\<rparr> 3 = Inr True
   \<and> survives \<lparr>deterministic = False, runAsync = True, confidenceLevel = 0.2,
        defaultPercentConifer = 50, defaultPercentDeadFir = 50\<rparr>
      \<lparr>weather = \<lparr>at_wx = (\<lambda>t. if t < 101 then Inr (Some \<lparr>mcDmcPct = 150\<rparr>)
                                else if t < 200 then Inr (Some \<lparr>mcDmcPct = 50\<rparr>)
                                else Inl out_of_range),
                   survivalProbability = (\<lambda>t f. Inr (1 / 2))\<rparr>,
        extinction_thresholds = [1 / 4, 3 / 4], start_day = 100\<rparr>
      (100 + 1 / 24) \<lparr>fuelCode = 3\<rparr> 3 = Inr False
   \<and> survives \<lparr>deterministic = False, runAsync = True, confidenceLevel = 0.2,
        defaultPercentConifer = 50, defaultPercentDeadFir = 50\<rparr>
      \<lparr>weather = \<lparr>at_wx = (\<lambda>t. if t < 101 then Inr (Some \<lparr>mcDmcPct = 150\<rparr>)
                                else if t < 200 then Inr (Some \<lparr>mcDmcPct = 50\<rparr>)
                                else Inl out_of_range),
                   survivalProbability = (\<lambda>t f. Inr (1 / 2))\<rparr>,
        extinction_thresholds = [1 / 4, 3 / 4], start_day = 100\<rparr>
      (100 + 1 / 2) \<lparr>fuelCode = 3\<rparr> 3 = Inr False
   \<and> survives \<lparr>deterministic = False, runAsync = True, confidenceLevel = 0.2,
        defaultPercentConifer = 50, defaultPercentDeadFir = 50\<rparr>
      \<lparr>weather = \<lparr>at_wx = (\<lambda>t. if t < 101 then Inr (Some \<lparr>mcDmcPct = 150\<rparr>)
                                else if t < 200 then Inr (Some \<lparr>mcDmcPct = 50\<rparr>)
                                else Inl out_of_range),
                   survivalProbability = (\<lambda>t f. Inr (1 / 2))\<rparr>,
        extinction_thresholds = [1 / 4, 3 / 4], start_day = 100\<rparr>
      300 \<lparr>fuelCode = 3\<rparr> 3 = Inr False"
proof -
  let ?det = "\<lparr>deterministic = True, runAsync = True, confidenceLevel = 0.2,
        defaultPercentConifer = 50, defaultPercentDeadFir = 50\<rparr>"
  let ?rnd = "\<lparr>deterministic = False, runAsync = True, confidenceLevel = 0.2,
        defaultPercentConifer = 50, defaultPercentDeadFir = 50\<rparr>"
  let ?sc = "\<lparr>weather = \<lparr>at_wx = (\<lambda>t. if t < 101 then Inr (Some \<lparr>mcDmcPct = 150\<rparr>)
                                else if t < 200 then Inr (Some \<lparr>mcDmcPct = 50\<rparr>)
                                else Inl out_of_range),
                   survivalProbability = (\<lambda>t f. Inr (1 / 2))\<rparr>,
        extinction_thresholds = [1 / 4, 3 / 4], start_day = 100\<rparr>"
  let ?cell = "\<lparr>fuelCode = 3\<rparr>"
  have i0: "time_index (100 - real (start_day ?sc)) = Inr 0"
    by (simp add: time_index_def size_t_of_real_def DAY_HOURS_def)
  have i1: "time_index (100 + 1 / 24 - real (start_day ?sc)) = Inr 1"
    by (simp add: time_index_def size_t_of_real_def DAY_HOURS_def)
  have i12: "time_index (100 + 1 / 2 - real (start_day ?sc)) = Inr 12"
    by (simp add: time_index_def size_t_of_real_def DAY_HOURS_def)
  show ?thesis
    using survives_deterministic_limits_threshold
        [of ?det ?sc 300 ?cell 3 "\<lparr>mcDmcPct = 150\<rparr>" 0 "1 / 2"]
      survives_deterministic_limits_threshold
        [of ?rnd ?sc 150 ?cell 3 "\<lparr>mcDmcPct = 50\<rparr>" 0 "1 / 2"]
      survives_deterministic_limits_threshold
        [of ?rnd ?sc 100 ?cell 3 "\<lparr>mcDmcPct = 150\<rparr>" 0 "1 / 2"]
      survives_deterministic_limits_threshold
        [of ?rnd ?sc "100 + 1 / 24" ?cell 3 "\<lparr>mcDmcPct = 150\<rparr>" 1 "1 / 2"]
      survives_deterministic_limits_threshold
        [of ?rnd ?sc "100 + 1 / 2" ?cell 3 "\<lparr>mcDmcPct = 150\<rparr>" 12 "1 / 2"]
      survives_deterministic_limits_threshold
        [of ?rnd ?sc 300 ?cell 3 "\<lparr>mcDmcPct = 150\<rparr>" 0 "1 / 2"]
      i0 i1 i12
    by simp
qed

subsection \<open>Angles\<close>

lemma fix_radians_shift: "\<exists>j::int. fix_radians x = x + 2 * pi * of_int j"
proof -
  have "fix_radians x = x + 2 * pi * of_int (-1) \<or> fix_radians x = x + 2 * pi * of_int 0
      \<or> fix_radians x = x + 2 * pi * of_int 1"
    by (simp add: fix_radians_def M_2_X_PI_def)
  then show ?thesis by blast
qed

text \<open>
  C7. For every angle \<open>theta\<close> in degrees, \<open>to_degrees (to_radians theta)\<close> is congruent
  to \<open>theta\<close> modulo 360: the two differ by a whole number of turns.
\<close>

theorem to_degrees_to_radians_congruent:
  "\<exists>k::int. to_degrees (to_radians theta) = theta + 360 * of_int k"
proof -
  obtain j1 :: int where j1:
    "fix_radians (theta / M_RADIANS_TO_DEGREES) = theta / M_RADIANS_TO_DEGREES + 2 * pi * of_int j1"
    using fix_radians_shift by blast
  obtain j2 :: int where j2:
    "fix_radians (to_radians theta) = to_radians theta + 2 * pi * of_int j2"
    using fix_radians_shift by blast
  have "to_degrees (to_radians theta) = theta + 360 * of_int (j1 + j2)"
    unfolding to_degrees_def j2 unfolding to_radians_def j1
    by (simp add: M_RADIANS_TO_DEGREES_def field_simps)
  then show ?thesis by blast
qed

subsection \<open>Probability of burning\<close>

text \<open>
  C8. For a fuel type whose inorganic percent is below 100 (any bulk density) and all
  moisture fractions \<open>mc1 < mc2\<close>, \<open>probabilityPeat mc1 > probabilityPeat mc2\<close>.
\<close>

theorem probabilityPeat_strictly_decreasing:
  assumes "InorganicPercent < 100" and "mc1 < mc2"
  shows "probabilityPeat BulkDensity InorganicPercent mc1
          > probabilityPeat BulkDensity InorganicPercent mc2"
proof -
  have fi: "0 < 1 - inorganicPercent InorganicPercent"
    using assms(1) by (simp add: inorganicPercent_def)
  have "17.047 * mc1 / (1 - inorganicPercent InorganicPercent)
        < 17.047 * mc2 / (1 - inorganicPercent InorganicPercent)"
    using fi assms(2) by (simp add: divide_strict_right_mono)
  then show ?thesis
    unfolding probabilityPeat_def Let_def
    by (intro divide_strict_left_mono) (auto simp: add_pos_pos intro!: mult_pos_pos add_pos_pos)
qed

theorem probabilityPeat_strictly_decreasing_witness:
  "probabilityPeat 222 35 (1 / 10) > probabilityPeat 222 35 (2 / 10)"
  using probabilityPeat_strictly_decreasing [of 35 "1 / 10" "2 / 10" 222] by simp

subsection \<open>Task limiter\<close>

lemma sint_ucast_small:
  fixes w :: "'a::len word"
  assumes "uint w < 2 ^ 31"
  shows "sint (ucast w :: 32 word) = uint w"
proof -
  have "(ucast w :: 32 word) = word_of_int (uint w)"
    by simp
  then have "sint (ucast w :: 32 word) = signed_take_bit (LENGTH(32) - 1) (uint w)"
    by (simp only: sint_sbintrunc')
  also have "\<dots> = uint w"
  proof (rule signed_take_bit_int_eq_self)
    have "(- (2 ^ (LENGTH(32) - 1)) :: int) \<le> 0" by simp
    also have "0 \<le> uint w" by simp
    finally show "- (2 ^ (LENGTH(32) - 1)) \<le> uint w" .
    show "uint w < 2 ^ (LENGTH(32) - 1)" using assms by simp
  qed
  finally show ?thesis .
qed

lemma sint_succ:
  fixes w :: "32 word"
  assumes "sint w < 2 ^ 31 - 1"
  shows "sint (w + 1) = sint w + 1"
proof -
  have "sint (w + 1) = signed_take_bit (LENGTH(32) - 1) (sint w + sint (1 :: 32 word))"
    by (rule sint_word_add)
  also have "sint (1 :: 32 word) = 1" by simp
  also have "signed_take_bit (LENGTH(32) - 1) (sint w + 1) = sint w + 1"
  proof (rule signed_take_bit_int_eq_self)
    have "- (2 ^ (LENGTH(32) - 1)) \<le> sint w" by (rule sint_ge)
    then show "- (2 ^ (LENGTH(32) - 1)) \<le> sint w + 1" by linarith
    show "sint w + 1 < 2 ^ (LENGTH(32) - 1)" using assms by simp
  qed
  finally show ?thesis .
qed

lemma wait_all_enters:
  assumes "sint (used s) + int n \<le> sint (limit s)"
  shows "\<exists>s'. wait_all n s = Some s' \<and> limit s' = limit s \<and> sint (used s') = sint (used s) + int n"
  using assms
proof (induction n arbitrary: s)
  case 0
  then show ?case by simp
next
  case (Suc n)
  let ?s1 = "s\<lparr>used := used s + 1\<rparr>"
  have lt: "sint (used s) < sint (limit s)" using Suc.prems by simp
  have "sint (limit s) < 2 ^ (LENGTH(32) - 1)" by (rule sint_lt)
  then have "sint (used s) < 2 ^ 31 - 1" using lt by simp
  then have u1: "sint (used ?s1) = sint (used s) + 1"
    by (simp add: sint_succ)
  have w: "wait s = Some ?s1" using lt by (simp add: wait_def)
  have "sint (used ?s1) + int n \<le> sint (limit ?s1)"
    using Suc.prems u1 by simp
  from Suc.IH [OF this] obtain s' where "wait_all n ?s1 = Some s'" "limit s' = limit ?s1"
    "sint (used s') = sint (used ?s1) + int n" by blast
  then show ?case using w u1 by simp
qed

text \<open>
  C5. When the controller runs asynchronously, the limit of the task limiter ends up at
  least \<open>max (hardware_concurrency, scenarios per iteration)\<close>; when one iteration holds
  more scenarios than \<open>hardware_concurrency\<close> the limit is that scenario count; and with
  nothing running yet, every scenario of one iteration passes \<open>wait\<close> without a
  \<open>notify\<close>. Both counts are below \<open>2^31\<close>, the range of the \<open>int\<close> the limit is stored
  in, and the limiter comes in with a limit no lower than \<open>hardware_concurrency\<close>, as its
  initial state has.
\<close>

theorem task_limiter_at_least_max:
  assumes "runAsync settings"
    and "uint hardware_concurrency < 2 ^ 31"
    and "uint scenarios_per_iteration < 2 ^ 31"
    and "uint hardware_concurrency \<le> sint (limit task_limiter)"
  shows "max (uint hardware_concurrency) (uint scenarios_per_iteration)
          \<le> sint (limit (runIterations_task_limiter settings hardware_concurrency
                            scenarios_per_iteration task_limiter))
       \<and> (uint hardware_concurrency < uint scenarios_per_iteration \<longrightarrow>
            sint (limit (runIterations_task_limiter settings hardware_concurrency
                            scenarios_per_iteration task_limiter))
              = uint scenarios_per_iteration)
       \<and> (used task_limiter = 0 \<longrightarrow>
            wait_all (unat scenarios_per_iteration)
              (runIterations_task_limiter settings hardware_concurrency
                 scenarios_per_iteration task_limiter) \<noteq> None)"
proof -
  let ?HW = "ucast hardware_concurrency :: size_t"
  let ?after = "runIterations_task_limiter settings hardware_concurrency
                  scenarios_per_iteration task_limiter"
  have hw: "uint ?HW = uint hardware_concurrency"
    by (simp add: uint_up_ucast is_up)
  have used_same: "used ?after = used task_limiter"
    by (simp add: runIterations_task_limiter_def Let_def set_limit_def)
  have limits: "max (uint hardware_concurrency) (uint scenarios_per_iteration) \<le> sint (limit ?after)
       \<and> (uint hardware_concurrency < uint scenarios_per_iteration \<longrightarrow>
            sint (limit ?after) = uint scenarios_per_iteration)"
  proof (cases "?HW < scenarios_per_iteration")
    case True
    then have lt: "uint hardware_concurrency < uint scenarios_per_iteration"
      using hw by (simp add: word_less_def)
    have m: "max ?HW scenarios_per_iteration = scenarios_per_iteration"
      using True by (intro max.absorb2) (rule less_imp_le)
    have "?after = set_limit scenarios_per_iteration task_limiter"
      using assms(1) True by (simp add: runIterations_task_limiter_def Let_def m)
    then have "sint (limit ?after) = uint scenarios_per_iteration"
      using sint_ucast_small [OF assms(3)] by (simp add: set_limit_def)
    then show ?thesis using lt by simp
  next
    case False
    then have ge: "uint scenarios_per_iteration \<le> uint hardware_concurrency"
      using hw by (simp add: word_less_def)
    have m: "max ?HW scenarios_per_iteration = ?HW"
      using False by (intro max.absorb1) simp
    have "?after = task_limiter"
      using assms(1) by (simp add: runIterations_task_limiter_def Let_def m)
    then show ?thesis using ge assms(4) by simp
  qed
  have enters: "wait_all (unat scenarios_per_iteration) ?after \<noteq> None" if "used task_limiter = 0"
  proof -
    have "int (unat scenarios_per_iteration) = uint scenarios_per_iteration"
      by simp
    then have "sint (used ?after) + int (unat scenarios_per_iteration) \<le> sint (limit ?after)"
      using limits that used_same by simp
    from wait_all_enters [OF this] show ?thesis by auto
  qed
  show ?thesis using limits enters by blast
qed

theorem task_limiter_at_least_max_witness:
  "sint (limit (runIterations_task_limiter
       \<lparr>deterministic = False, runAsync = True, confidenceLevel = 0.2,
         defaultPercentConifer = 50, defaultPercentDeadFir = 50\<rparr>
       8 20 (task_limiter_initial 8))) = 20
   \<and> max (8 :: int) 20 \<le> sint (limit (runIterations_task_limiter
       \<lparr>deterministic = False, runAsync = True, confidenceLevel = 0.2,
         defaultPercentConifer = 50, defaultPercentDeadFir = 50\<rparr>
       8 20 (task_limiter_initial 8)))
   \<and> max (8 :: int) 5 \<le> sint (limit (runIterations_task_limiter
       \<lparr>deterministic = False, runAsync = True, confidenceLevel = 0.2,
         defaultPercentConifer = 50, defaultPercentDeadFir = 50\<rparr>
       8 5 (task_limiter_initial 8)))
   \<and> wait_all 20 (runIterations_task_limiter
       \<lparr>deterministic = False, runAsync = True, confidenceLevel = 0.2,
         defaultPercentConifer = 50, defaultPercentDeadFir = 50\<rparr>
       8 20 (task_limiter_initial 8)) \<noteq> None"
  using task_limiter_at_least_max [of "\<lparr>deterministic = False, runAsync = True, confidenceLevel = 0.2,
         defaultPercentConifer = 50, defaultPercentDeadFir = 50\<rparr>" 8 20 "task_limiter_initial 8"]
    task_limiter_at_least_max [of "\<lparr>deterministic = False, runAsync = True, confidenceLevel = 0.2,
         defaultPercentConifer = 50, defaultPercentDeadFir = 50\<rparr>" 8 5 "task_limiter_initial 8"]
  by (simp add: task_limiter_initial_def Semaphore_new_def)

subsection \<open>Tabulated functions\<close>

lemma pow_int_eq: "pow_int N b = b ^ N"
proof (induction N b rule: pow_int.induct)
  case (1 N b)
  show ?case
  proof (cases "N = 0")
    case True
    then show ?thesis by (subst pow_int.simps) simp
  next
    case nz: False
    show ?thesis
    proof (cases "N mod 2 = 0")
      case True
      then have "N = N div 2 + N div 2" by presburger
      then have "b ^ N = b ^ (N div 2) * b ^ (N div 2)"
        by (metis power_add)
      then show ?thesis using 1 nz True by (subst pow_int.simps) simp
    next
      case False
      then have "N = Suc ((N - 1) div 2 + (N - 1) div 2)" by presburger
      then have "b ^ N = b * b ^ ((N - 1) div 2) * b ^ ((N - 1) div 2)"
        by (metis power_Suc power_add mult.assoc)
      then show ?thesis using 1 nz False by (subst pow_int.simps) simp
    qed
  qed
qed

text \<open>
  C10. For every function \<open>Fct\<close> and every \<open>v\<close> with \<open>0 \<le> v < 10 ^ IndexDigits\<close>, the table
  lookup returns what \<open>Fct\<close> returns at \<open>v\<close> truncated to \<open>Precision\<close> decimal digits. The
  table's size \<open>10 ^ (IndexDigits + Precision)\<close> fits \<open>int\<close>.
\<close>

theorem LookupTable_call_eq_direct_call:
  assumes v0: "0 \<le> v"
    and vI: "v < 10 ^ IndexDigits"
    and size: "(10::int) ^ (IndexDigits + Precision) < 2 ^ 31"
  shows "LookupTable_call Fct IndexDigits Precision v = Inr (direct_call Fct Precision v)"
proof -
  let ?x = "v * 10 ^ Precision"
  let ?n = "\<lfloor>?x\<rfloor>"
  have x0: "0 \<le> ?x" using v0 by simp
  have xlt: "?x < 10 ^ (IndexDigits + Precision)"
    using vI by (simp add: power_add)
  have n0: "0 \<le> ?n" using x0 by simp
  have "?x < real_of_int (10 ^ (IndexDigits + Precision))"
    using xlt by simp
  then have nlt: "?n < 10 ^ (IndexDigits + Precision)"
    by (simp only: floor_less_iff)
  have n31: "?n < 2 ^ 31" using nlt size by linarith
  have n64: "?n < 2 ^ 64"
  proof -
    have "(2::int) ^ 31 < 2 ^ 64" by simp
    then show ?thesis using n31 by linarith
  qed
  have "real_of_int ?n \<le> ?x" by (rule of_int_floor_le)
  have x64: "?x < 2 ^ 64"
  proof -
    have "?x < real_of_int (?n + 1)" by linarith
    also have "\<dots> \<le> real_of_int (2 ^ 64)" using n64 by (intro of_int_le_iff [THEN iffD2]) linarith
    finally show ?thesis by simp
  qed
  have conv: "size_t_of_real (v * real_of_int (pow_int Precision 10)) = Inr (word_of_int ?n)"
    using x0 x64 by (simp add: size_t_of_real_def pow_int_eq)
  have un: "unat (word_of_int ?n :: size_t) = nat ?n"
  proof -
    have "uint (word_of_int ?n :: size_t) = ?n"
      using n0 n64 by (simp add: uint_word_of_int take_bit_int_eq_self)
    then show ?thesis by (simp add: unat_eq_nat_uint)
  qed
  have len: "length (makeValues Fct IndexDigits Precision) = nat (10 ^ (IndexDigits + Precision))"
    by (simp add: makeValues_def pow_int_eq power_add)
  have idx: "nat ?n < nat (10 ^ (IndexDigits + Precision))"
    using n0 nlt by linarith
  have nth: "makeValues Fct IndexDigits Precision ! nat ?n = Fct (real (nat ?n) / 10 ^ Precision)"
    using idx unfolding makeValues_def
    by (simp add: pow_int_eq power_add Let_def)
  have rn: "real (nat ?n) = real_of_int ?n"
    using n0 by simp
  show ?thesis
    unfolding LookupTable_call_def conv
    using idx by (simp add: vector_at_def un len nth rn direct_call_def truncate_to_precision_def)
qed

theorem LookupTable_call_eq_direct_call_witness:
  "LookupTable_call (\<lambda>x. 2 * x + 1) 3 1 (12345 / 100) = Inr (2 * (1234 / 10) + 1)"
proof -
  have "(10::int) ^ (3 + 1) < 2 ^ 31" by simp
  moreover have "(0::real) \<le> 12345 / 100" by simp
  moreover have "(12345 / 100 :: real) < 10 ^ 3" by simp
  moreover have "\<lfloor>(12345 / 100 :: real) * 10 ^ 1\<rfloor> = 1234"
    by (simp add: floor_eq_iff)
  ultimately show ?thesis
    using LookupTable_call_eq_direct_call [of "12345 / 100" 3 1 "\<lambda>x. 2 * x + 1"]
    by (simp add: direct_call_def truncate_to_precision_def)
qed

subsection \<open>Probability aggregator\<close>

lemma add_cell_counts:
  assumes "add_cell pm kv = Inr pm'"
    and "pm_all pm c = pm_low pm c + pm_med pm c + pm_high pm c"
  shows "pm_all pm' c = pm_low pm' c + pm_med pm' c + pm_high pm' c"
  using assms by (auto simp: add_cell_def Let_def split: if_splits)

lemma addProbability_counts:
  assumes "addProbability pm for_time = Inr pm'"
    and "pm_all pm c = pm_low pm c + pm_med pm c + pm_high pm c"
  shows "pm_all pm' c = pm_low pm' c + pm_med pm' c + pm_high pm' c"
  using assms
proof (induction for_time arbitrary: pm)
  case Nil
  then show ?case by simp
next
  case (Cons kv for_time)
  from Cons.prems(1) obtain pm1 where s1: "add_cell pm kv = Inr pm1"
    and s2: "addProbability pm1 for_time = Inr pm'"
    by (auto split: sum.splits)
  from add_cell_counts [OF s1 Cons.prems(2)] Cons.IH [OF s2] show ?case by blast
qed

text \<open>
  C3. For every probability map built by any sequence of \<open>addProbability\<close>,
  \<open>addProbabilities\<close> and \<open>reset\<close>, and every cell, the count in the total grid is the
  sum of the counts in the low, moderate and high grids (in \<open>size_t\<close> arithmetic).
\<close>

theorem total_is_low_plus_moderate_plus_high:
  assumes "built pm"
  shows "pm_all pm c = pm_low pm c + pm_med pm c + pm_high pm c"
  using assms
proof (induction rule: built.induct)
  case (built_new lo_max md_max mx)
  then show ?case by (simp add: ProbabilityMap_new_def)
next
  case (built_addProbability pm for_time pm')
  then show ?case using addProbability_counts by blast
next
  case (built_addProbabilities pm rhs)
  then show ?case by (simp add: addProbabilities_def)
next
  case (built_reset pm)
  then show ?case by (simp add: reset_def)
qed

theorem total_is_low_plus_moderate_plus_high_witness:
  "\<exists>pm. addProbability (ProbabilityMap_new 10 100 1000) [(3, 5), (4, 0), (7, 50), (3, 500)] = Inr pm
      \<and> pm_all pm 3 = 2 \<and> pm_low pm 3 + pm_med pm 3 + pm_high pm 3 = 2
      \<and> pm_all (addProbabilities pm pm) 3 = 4
      \<and> pm_low (addProbabilities pm pm) 3 + pm_med (addProbabilities pm pm) 3
          + pm_high (addProbabilities pm pm) 3 = 4"
proof -
  obtain pm where pm: "addProbability (ProbabilityMap_new 10 100 1000) [(3, 5), (4, 0), (7, 50), (3, 500)] = Inr pm"
    by (simp add: ProbabilityMap_new_def add_cell_def)
  have b: "built pm"
    using built_addProbability [OF built_new pm] .
  have a3: "pm_all pm 3 = 2"
    using pm by (auto simp: ProbabilityMap_new_def add_cell_def)
  have b2: "built (addProbabilities pm pm)"
    using built_addProbabilities [OF b b] .
  have a4: "pm_all (addProbabilities pm pm) 3 = 4"
    using a3 by (simp add: addProbabilities_def)
  show ?thesis
    using pm a3 a4 total_is_low_plus_moderate_plus_high [OF b, of 3] total_is_low_plus_moderate_plus_high [OF b2, of 3] by auto
qed

subsection \<open>Pool of burned-data buffers\<close>

lemma getBurnedVector_fresh_or_reset:
  assumes "getBurnedVector env model = Inr (b, model')"
    and "\<forall>x \<in> set (vectors model). fresh_or_reset env x"
  shows "fresh_or_reset env b \<and> (\<forall>x \<in> set (vectors model'). fresh_or_reset env x)"
proof (cases "vectors model = []")
  case True
  then show ?thesis using assms
    by (auto simp: getBurnedVector_def fresh_or_reset_def split: option.splits)
next
  case False
  then have "b = last (vectors model)" and "vectors model' = butlast (vectors model)"
    using assms(1) by (auto simp: getBurnedVector_def Let_def)
  then show ?thesis using assms(2) False
    by (auto dest: in_set_butlastD)
qed

lemma releaseBurnedVector_fresh_or_reset:
  assumes "releaseBurnedVector env p model = Inr model'"
    and "\<forall>x \<in> set (vectors model). fresh_or_reset env x"
  shows "\<forall>x \<in> set (vectors model'). fresh_or_reset env x"
  using assms
  by (auto simp: releaseBurnedVector_def fresh_or_reset_def split: option.splits)

lemma run_pool_fresh_or_reset:
  assumes "run_pool env calls model = Inr (bs, model')"
    and "\<forall>x \<in> set (vectors model). fresh_or_reset env x"
  shows "(\<forall>b \<in> set bs. fresh_or_reset env b) \<and> (\<forall>x \<in> set (vectors model'). fresh_or_reset env x)"
  using assms
proof (induction calls arbitrary: model bs)
  case Nil
  then show ?case by simp
next
  case (Cons c calls)
  show ?case
  proof (cases c)
    case Get
    with Cons.prems(1) obtain b m1 bs1 where g: "getBurnedVector env model = Inr (b, m1)"
      and r: "run_pool env calls m1 = Inr (bs1, model')" and bs: "bs = b # bs1"
      by (auto split: sum.splits prod.splits)
    from getBurnedVector_fresh_or_reset [OF g Cons.prems(2)]
    have fb: "fresh_or_reset env b" and inv: "\<forall>x \<in> set (vectors m1). fresh_or_reset env x"
      by simp_all
    from Cons.IH [OF r inv] fb bs show ?thesis by simp
  next
    case (Release p)
    with Cons.prems(1) obtain m1 where g: "releaseBurnedVector env p model = Inr m1"
      and r: "run_pool env calls m1 = Inr (bs, model')"
      by (auto split: sum.splits)
    from Cons.IH [OF r releaseBurnedVector_fresh_or_reset [OF g Cons.prems(2)]]
    show ?thesis .
  qed
qed

text \<open>
  C9. Releasing a null pointer leaves the pool as it is; releasing a buffer stores in
  the pool what \<open>resetBurnedData\<close> made of it; and so, in every run of the pool that
  starts empty, every buffer that \<open>getBurnedVector\<close> hands out is fresh from
  \<open>makeBurnedData\<close> or was reset, and so is every buffer left in the pool.
\<close>

theorem pool_buffers_reset:
  "releaseBurnedVector env None model = Inr model
   \<and> (resetBurnedData env b = Some b' \<longrightarrow>
        releaseBurnedVector env (Some b) model = Inr (model\<lparr>vectors := vectors model @ [b']\<rparr>))
   \<and> (run_pool env calls \<lparr>vectors = []\<rparr> = Inr (bs, model') \<longrightarrow>
        (\<forall>x \<in> set bs. fresh_or_reset env x) \<and> (\<forall>x \<in> set (vectors model'). fresh_or_reset env x))"
proof (intro conjI impI)
  show "releaseBurnedVector env None model = Inr model"
    by (simp add: releaseBurnedVector_def)
  show "releaseBurnedVector env (Some b) model = Inr (model\<lparr>vectors := vectors model @ [b']\<rparr>)"
    if "resetBurnedData env b = Some b'"
    using that by (simp add: releaseBurnedVector_def)
  show "\<forall>x \<in> set bs. fresh_or_reset env x" if "run_pool env calls \<lparr>vectors = []\<rparr> = Inr (bs, model')"
    using run_pool_fresh_or_reset [OF that] by simp
  show "\<forall>x \<in> set (vectors model'). fresh_or_reset env x" if "run_pool env calls \<lparr>vectors = []\<rparr> = Inr (bs, model')"
    using run_pool_fresh_or_reset [OF that] by simp
qed

theorem pool_buffers_reset_witness:
  "run_pool \<lparr>makeBurnedData = Some [False, True, False], resetBurnedData = (\<lambda>b. Some [False, True, False])\<rparr>
      [Get, Release (Some [True, True, False]), Release None, Get, Get] \<lparr>vectors = []\<rparr>
    = Inr ([[False, True, False], [False, True, False], [False, True, False]], \<lparr>vectors = []\<rparr>)
   \<and> fresh_or_reset \<lparr>makeBurnedData = Some [False, True, False], resetBurnedData = (\<lambda>b. Some [False, True, False])\<rparr>
        [False, True, False]"
proof -
  let ?env = "\<lparr>makeBurnedData = Some [False, True, False], resetBurnedData = (\<lambda>b. Some [False, True, False])\<rparr>"
  have r: "run_pool ?env [Get, Release (Some [True, True, False]), Release None, Get, Get] \<lparr>vectors = []\<rparr>
    = Inr ([[False, True, False], [False, True, False], [False, True, False]], \<lparr>vectors = []\<rparr>)"
    by (simp add: getBurnedVector_def releaseBurnedVector_def)
  from pool_buffers_reset [of ?env "\<lparr>vectors = []\<rparr>" "[True, True, False]" "[False, True, False]"
      "[Get, Release (Some [True, True, False]), Release None, Get, Get]"
      "[[False, True, False], [False, True, False], [False, True, False]]" "\<lparr>vectors = []\<rparr>"] r
  show ?thesis by simp
qed

subsection \<open>Sunrise and sunset\<close>

lemma fix_range_raise_total:
  assumes "0 < mx"
  shows "\<exists>k::nat. fix_range_raise v mn mx = Some (v + real k * mx)"
proof (induction "nat \<lceil>(mn - v) / mx\<rceil>" arbitrary: v rule: less_induct)
  case less
  show ?case
  proof (cases "v < mn")
    case False
    then have "fix_range_raise v mn mx = Some (v + real 0 * mx)"
      by (subst fix_range_raise.simps) simp
    then show ?thesis by blast
  next
    case True
    have eq: "(mn - (v + mx)) / mx = (mn - v) / mx - 1"
      using assms by (simp add: field_simps)
    have pos: "0 < (mn - v) / mx" using True assms by simp
    then have "0 < \<lceil>(mn - v) / mx\<rceil>" by simp
    then have "nat \<lceil>(mn - (v + mx)) / mx\<rceil> < nat \<lceil>(mn - v) / mx\<rceil>"
      unfolding eq by simp
    from less [OF this] obtain k :: nat
      where "fix_range_raise (v + mx) mn mx = Some (v + mx + real k * mx)" by blast
    then have "fix_range_raise v mn mx = Some (v + real (Suc k) * mx)"
      using True by (subst fix_range_raise.simps) (simp add: algebra_simps)
    then show ?thesis by blast
  qed
qed

lemma fix_range_lower_total:
  assumes "0 < mx"
  shows "\<exists>k::nat. fix_range_lower v mx = Some (v - real k * mx)"
proof (induction "nat \<lfloor>v / mx\<rfloor>" arbitrary: v rule: less_induct)
  case less
  show ?case
  proof (cases "v \<ge> mx")
    case False
    then have "fix_range_lower v mx = Some (v - real 0 * mx)"
      by (subst fix_range_lower.simps) simp
    then show ?thesis by blast
  next
    case True
    have eq: "(v - mx) / mx = v / mx - 1"
      using assms by (simp add: field_simps)
    have "1 \<le> v / mx" using True assms by simp
    then have "1 \<le> \<lfloor>v / mx\<rfloor>" by simp
    then have "nat \<lfloor>(v - mx) / mx\<rfloor> < nat \<lfloor>v / mx\<rfloor>"
      unfolding eq by simp
    from less [OF this] obtain k :: nat
      where "fix_range_lower (v - mx) mx = Some (v - mx - real k * mx)" by blast
    then have "fix_range_lower v mx = Some (v - real (Suc k) * mx)"
      using True by (subst fix_range_lower.simps) (simp add: algebra_simps)
    then show ?thesis by blast
  qed
qed

lemma fix_range_total:
  assumes "0 < mx"
  shows "\<exists>y. fix_range v mn mx = Some y"
proof -
  obtain k :: nat where "fix_range_raise v mn mx = Some (v + real k * mx)"
    using fix_range_raise_total [OF assms] by blast
  moreover obtain j :: nat where "fix_range_lower (v + real k * mx) mx = Some (v + real k * mx - real j * mx)"
    using fix_range_lower_total [OF assms] by blast
  ultimately show ?thesis by (simp add: fix_range_def)
qed

lemma fix_degrees_total: "\<exists>y. fix_degrees v = Some y"
  unfolding fix_degrees_def by (rule fix_range_total) simp

lemma sunrise_sunset_cos_h_total:
  "\<exists>p. sunrise_sunset_cos_h usin ucos jd latitude longitude for_sunrise = Some p"
proof -
  let ?t = "real_of_int jd + ((if for_sunrise then 6 else 18) - longitude / 15) / 24"
  let ?m = "0.9856 * ?t - 3.289"
  obtain l where l: "fix_degrees (?m + 1.916 * usin (to_radians ?m) + 0.020 * usin (to_radians (2 * ?m)) + 282.634) = Some l"
    using fix_degrees_total by blast
  obtain ra0 where ra0: "fix_degrees (to_degrees (arctan (0.91764 * tan (to_radians l)))) = Some ra0"
    using fix_degrees_total by blast
  show ?thesis
    unfolding sunrise_sunset_cos_h_def Let_def l option.case ra0 by blast
qed

text \<open>
  C6. For every day of the year, latitude and longitude the computation reaches
  \<open>cos_h\<close>, and whenever the \<open>cos_h\<close> of the sunrise computation exceeds 1 the sunrise is
  the sentinel \<open>-1\<close>, and whenever the \<open>cos_h\<close> of the sunset computation exceeds 1 the
  sunset is \<open>25\<close>.
\<close>

theorem sunrise_sunset_never_rises:
  "(\<exists>p. sunrise_sunset_cos_h usin ucos jd latitude longitude for_sunrise = Some p)
   \<and> (\<forall>p. sunrise_sunset_cos_h usin ucos jd latitude longitude True = Some p \<and> sun_cos_h p > 1
        \<longrightarrow> sunrise usin ucos jd latitude longitude = Some (- 1))
   \<and> (\<forall>p. sunrise_sunset_cos_h usin ucos jd latitude longitude False = Some p \<and> sun_cos_h p > 1
        \<longrightarrow> sunset usin ucos jd latitude longitude = Some 25)"
  using sunrise_sunset_cos_h_total [of usin ucos jd latitude longitude for_sunrise]
  by (auto simp: sunrise_def sunset_def sunrise_sunset_def)

text \<open>
  The polar night of 3 January at 89 degrees north, with \<open>sin\<close> and \<open>cos\<close> for \<open>_sin\<close> and
  \<open>_cos\<close>: the longitudes are chosen so that the mean anomaly \<open>m\<close> is 0 and the sun's
  true longitude is 282.634 degrees.
\<close>

lemma to_radians_in_turn:
  assumes "0 \<le> d" and "d \<le> 360"
  shows "to_radians d = d * pi / 180"
proof -
  have "d * pi / 180 \<le> 2 * pi"
    using assms(2) pi_gt_zero by (simp add: field_simps)
  moreover have "0 \<le> d * pi / 180"
    using assms(1) pi_gt_zero by simp
  ultimately show ?thesis
    by (simp add: to_radians_def fix_radians_def M_2_X_PI_def M_RADIANS_TO_DEGREES_def)
qed

lemma sqrt3_bound: "17 / 10 \<le> sqrt 3"
  by (rule real_le_rsqrt) (simp add: power2_eq_square)

lemma sin_true_longitude_bound: "sin (282.634 * pi / 180) \<le> - (17 / 20)"
proof -
  let ?d = "12.634 * pi / 180"
  have split: "282.634 * pi / 180 = 3 / 2 * pi + ?d"
    by (simp add: field_simps)
  have "sin (3 / 2 * pi + ?d) = sin (3 / 2 * pi) * cos ?d + cos (3 / 2 * pi) * sin ?d"
    by (rule sin_add)
  then have "sin (3 / 2 * pi + ?d) = - cos ?d"
    unfolding sin_3over2_pi cos_3over2_pi by simp
  moreover have "cos (pi / 6) \<le> cos ?d"
    using pi_gt_zero by (intro cos_monotone_0_pi_le) (simp_all add: field_simps)
  ultimately show ?thesis
    using sqrt3_bound unfolding split by (simp add: cos_30)
qed

lemma cos_zenith_bound: "- (4 / 30) \<le> cos (96 * pi / 180)"
proof -
  have split: "96 * pi / 180 = pi / 2 + pi / 30"
    by (simp add: field_simps)
  have "cos (pi / 2 + x) = - sin x" for x :: real
    by (simp add: cos_add)
  then have "cos (pi / 2 + pi / 30) = - sin (pi / 30)" .
  moreover have "sin (pi / 30) \<le> pi / 30"
    using pi_gt_zero by (intro sin_x_le_x) simp
  moreover have "pi / 30 < 4 / 30"
    using pi_less_4 by simp
  ultimately show ?thesis unfolding split by linarith
qed

lemma sin_latitude_bound: "17 / 20 \<le> sin (89 * pi / 180)"
proof -
  have "sin (pi / 3) \<le> sin (89 * pi / 180)"
    using pi_gt_zero by (intro sin_monotone_2pi_le) (simp_all add: field_simps)
  then show ?thesis using sqrt3_bound by (simp add: sin_60)
qed

lemma cos_latitude_bound: "0 < cos (89 * pi / 180) \<and> cos (89 * pi / 180) \<le> 4 / 180"
proof -
  have split: "89 * pi / 180 = pi / 2 - pi / 180"
    by (simp add: field_simps)
  have "cos (pi / 2 - x) = sin x" for x :: real
    by (simp add: cos_diff)
  then have "cos (pi / 2 - pi / 180) = sin (pi / 180)" .
  moreover have "sin (pi / 180) \<le> pi / 180"
    using pi_gt_zero by (intro sin_x_le_x) simp
  moreover have "pi / 180 < 4 / 180"
    using pi_less_4 by simp
  moreover have "0 < cos (89 * pi / 180)"
    using pi_gt_zero by (intro cos_gt_zero_pi) (simp_all add: field_simps)
  ultimately show ?thesis unfolding split by linarith
qed

lemma polar_night_cos_h:
  assumes m0: "0.9856 * (real_of_int jd + ((if for_sunrise then 6 else 18) - longitude / 15) / 24) - 3.289 = 0"
  shows "\<exists>p. sunrise_sunset_cos_h sin cos jd 89 longitude for_sunrise = Some p \<and> 1 < sun_cos_h p"
proof -
  have r0: "to_radians 0 = 0"
    using to_radians_in_turn [of 0] by simp
  have l: "fix_degrees 282.634 = Some 282.634"
    by (simp add: fix_degrees_def fix_range_def fix_range_raise.simps fix_range_lower.simps)
  obtain ra0 where ra0: "fix_degrees (to_degrees (arctan (0.91764 * tan (282.634 * pi / 180)))) = Some ra0"
    using fix_degrees_total by blast
  let ?sd = "0.39782 * sin (282.634 * pi / 180)"
  let ?cd = "cos (arcsin ?sd)"
  let ?num = "cos (96 * pi / 180) - ?sd * sin (89 * pi / 180)"
  let ?den = "?cd * cos (89 * pi / 180)"
  have sd_hi: "?sd \<le> - (0.39782 * (17 / 20))"
    using sin_true_longitude_bound by simp
  have sd_lo: "- 0.39782 \<le> ?sd"
    using sin_ge_minus_one [of "282.634 * pi / 180"] by simp
  have sd_range: "- 1 < 0.39782 * s \<and> 0.39782 * s < 1" if "- 1 \<le> s" "s \<le> 1" for s :: real
    using that by simp
  have "- 1 < ?sd" "?sd < 1"
    using sd_range [of "sin (282.634 * pi / 180)"] by simp_all
  then have "- (pi / 2) < arcsin ?sd \<and> arcsin ?sd < pi / 2"
    by (rule arcsin_lt_bounded)
  then have cd_pos: "0 < ?cd" by (intro cos_gt_zero_pi) simp_all
  have cd_le: "?cd \<le> 1" by simp
  have den_pos: "0 < ?den"
    using cd_pos cos_latitude_bound by simp
  have "?den \<le> 1 * (4 / 180)"
    using cd_pos cd_le cos_latitude_bound by (intro mult_mono) simp_all
  then have den_le: "?den \<le> 4 / 180" by simp
  have "0.39782 * (17 / 20) * (17 / 20) \<le> (- ?sd) * sin (89 * pi / 180)"
    using sd_hi sin_latitude_bound by (intro mult_mono) simp_all
  then have num_ge: "- (4 / 30) + 0.39782 * (17 / 20) * (17 / 20) \<le> ?num"
    using cos_zenith_bound by simp
  have "d < n" if "d \<le> 4 / 180" "- (4 / 30) + 0.39782 * (17 / 20) * (17 / 20) \<le> n" for d n :: real
    using that by simp
  from this [OF den_le num_ge] have "?den < ?num" .
  then have big: "1 < ?num / ?den"
    using den_pos by simp
  have e1: "0 + 1.916 * sin (to_radians 0) + 0.020 * sin (to_radians (2 * 0)) + 282.634 = (282.634 :: real)"
    by (simp add: r0)
  have z: "to_radians 96 = 96 * pi / 180"
    by (rule to_radians_in_turn) simp_all
  have lr: "to_radians 282.634 = 282.634 * pi / 180"
    by (rule to_radians_in_turn) simp_all
  have la: "to_radians 89 = 89 * pi / 180"
    by (rule to_radians_in_turn) simp_all
  have "sunrise_sunset_cos_h sin cos jd 89 longitude for_sunrise =
      Some \<lparr>sun_t = real_of_int jd + ((if for_sunrise then 6 else 18) - longitude / 15) / 24,
            sun_lng_hour = longitude / 15,
            sun_ra = (ra0 + (real_of_int \<lfloor>282.634 / 90 :: real\<rfloor> * 90 - real_of_int \<lfloor>ra0 / 90\<rfloor> * 90)) / 15,
            sun_cos_h = ?num / ?den\<rparr>"
    unfolding sunrise_sunset_cos_h_def Let_def m0 e1 l option.case ra0 z lr la
    by (rule refl)
  then show ?thesis using big by auto
qed

theorem sunrise_sunset_never_rises_witness:
  "sunrise sin cos 3 89 (- 1755 / 56) = Some (- 1) \<and> sunset sin cos 3 89 (8325 / 56) = Some 25"
proof -
  obtain p where p: "sunrise_sunset_cos_h sin cos 3 89 (- 1755 / 56) True = Some p" "1 < sun_cos_h p"
    using polar_night_cos_h [of 3 True "- 1755 / 56"] by auto
  obtain q where q: "sunrise_sunset_cos_h sin cos 3 89 (8325 / 56) False = Some q" "1 < sun_cos_h q"
    using polar_night_cos_h [of 3 False "8325 / 56"] by auto
  show ?thesis
    using sunrise_sunset_never_rises [of sin cos 3 89 "- 1755 / 56" True] p
      sunrise_sunset_never_rises [of sin cos 3 89 "8325 / 56" True] q
    by blast
qed

subsection \<open>Fuel lookup table\<close>

lemma c_rem_nonneg: "0 \<le> a \<Longrightarrow> 0 < b \<Longrightarrow> c_rem a b = a mod b"
proof -
  assume a: "0 \<le> a" and b: "0 < b"
  show ?thesis
  proof (cases "a = 0")
    case True
    then show ?thesis by (simp add: c_rem_def)
  next
    case False
    then have "sgn a = 1" using a by simp
    moreover have "sgn b = 1" using b by simp
    ultimately have "c_rem a b = a - b * (a div b)"
      using a b by (simp add: c_rem_def)
    then show ?thesis by (simp add: minus_mult_div_eq_mod)
  qed
qed

lemma byName_emplaceFuel_named:
  "byName (emplaceFuel_named n f this) n' =
    (if n' = n \<and> byName this n = None then Some f else byName this n')"
  by (auto simp: byName_def emplaceFuel_named_def emplace_def map_add_def split: option.splits)

lemma byName_fold_emplaceFuel_None:
  assumes "byName this n = None" and "n \<notin> set (map name fs)"
  shows "byName (fold emplaceFuel fs this) n = None"
  using assms
proof (induction fs arbitrary: this)
  case Nil
  then show ?case by simp
next
  case (Cons f fs)
  have "byName (emplaceFuel f this) n = None"
    using Cons.prems by (simp add: emplaceFuel_def byName_emplaceFuel_named safeName_def)
  then show ?case using Cons by simp
qed

lemma mixed_names_unused:
  "''M-1'' \<notin> set (map name Fuels)" "''M-2'' \<notin> set (map name Fuels)"
  "''M-1/M-2'' \<notin> set (map name Fuels)" "''M-3'' \<notin> set (map name Fuels)"
  "''M-4'' \<notin> set (map name Fuels)" "''M-3/M-4'' \<notin> set (map name Fuels)"
  by (simp_all add: Fuels_def FuelType_new_def M1_05_def M2_05_def M1_M2_05_def M3_05_def
      M4_05_def M3_M4_05_def NULL_FUEL_def INVALID_def)

lemma multiples_of_5_below_100:
  fixes p :: int
  assumes "0 < p" "p \<le> 100" "p mod 5 = 0"
  shows "p \<in> {5, 10, 15, 20, 25, 30, 35, 40, 45, 50, 55, 60, 65, 70, 75, 80, 85, 90, 95, 100}"
  using assms by (simp; presburger)

lemma length_Fuels: "length Fuels = 141"
  by (simp add: Fuels_def)

lemma base_codes:
  "safeCode (Some M1_05) = 17" "safeCode (Some M2_05) = 36" "safeCode (Some M1_M2_05) = 55"
  "safeCode (Some M3_05) = 74" "safeCode (Some M4_05) = 94" "safeCode (Some M3_M4_05) = 114"
  by (simp_all add: safeCode_def FuelType_new_def M1_05_def M2_05_def M1_M2_05_def M3_05_def
      M4_05_def M3_M4_05_def)

lemma conifer_lookups:
  fixes p :: int
  assumes "p \<in> {5, 10, 15, 20, 25, 30, 35, 40, 45, 50, 55, 60, 65, 70, 75, 80, 85, 90, 95}"
  shows "\<exists>f1 f2 f3.
    vector_at Fuels ((word_of_int p :: size_t) div 5 - 1 + word_of_nat (safeCode (Some M1_05))) = Inr f1
    \<and> vector_at Fuels ((word_of_int p :: size_t) div 5 - 1 + word_of_nat (safeCode (Some M2_05))) = Inr f2
    \<and> vector_at Fuels ((word_of_int p :: size_t) div 5 - 1 + word_of_nat (safeCode (Some M1_M2_05))) = Inr f3
    \<and> fuel_class f1 = FuelM1 (nat p) \<and> fuel_class f2 = FuelM2 (nat p) \<and> fuel_class f3 = FuelM1M2 (nat p)"
  using assms
  by (elim insertE emptyE; simp add: vector_at_def base_codes length_Fuels; simp add: Fuels_def FuelType_new_def M1_05_def M2_05_def M1_M2_05_def)

lemma dead_fir_lookups:
  fixes p :: int
  assumes "p \<in> {5, 10, 15, 20, 25, 30, 35, 40, 45, 50, 55, 60, 65, 70, 75, 80, 85, 90, 95, 100}"
  shows "\<exists>f4 f5 f6.
    vector_at Fuels ((word_of_int p :: size_t) div 5 - 1 + word_of_nat (safeCode (Some M3_05))) = Inr f4
    \<and> vector_at Fuels ((word_of_int p :: size_t) div 5 - 1 + word_of_nat (safeCode (Some M4_05))) = Inr f5
    \<and> vector_at Fuels ((word_of_int p :: size_t) div 5 - 1 + word_of_nat (safeCode (Some M3_M4_05))) = Inr f6
    \<and> fuel_class f4 = FuelM3 (nat p) \<and> fuel_class f5 = FuelM4 (nat p)
    \<and> fuel_class f6 = FuelM3M4 (nat p - 5)"
  using assms
  by (elim insertE emptyE; simp add: vector_at_def base_codes length_Fuels; simp add: Fuels_def FuelType_new_def M3_05_def M4_05_def M3_M4_05_def)

lemma mixed_wood_registered:
  fixes settings :: Settings
  assumes pc: "0 < defaultPercentConifer settings" "defaultPercentConifer settings < 100"
      "defaultPercentConifer settings mod 5 = 0"
    and pdf: "0 < defaultPercentDeadFir settings" "defaultPercentDeadFir settings \<le> 100"
      "defaultPercentDeadFir settings mod 5 = 0"
  shows "\<exists>this. FuelLookupImpl_new settings = Inr this
    \<and> map_option fuel_class (byName this ''M-1'') = Some (FuelM1 (nat (defaultPercentConifer settings)))
    \<and> map_option fuel_class (byName this ''M-2'') = Some (FuelM2 (nat (defaultPercentConifer settings)))
    \<and> map_option fuel_class (byName this ''M-1/M-2'') = Some (FuelM1M2 (nat (defaultPercentConifer settings)))
    \<and> map_option fuel_class (byName this ''M-3'') = Some (FuelM3 (nat (defaultPercentDeadFir settings)))
    \<and> map_option fuel_class (byName this ''M-4'') = Some (FuelM4 (nat (defaultPercentDeadFir settings)))
    \<and> map_option fuel_class (byName this ''M-3/M-4'') = Some (FuelM3M4 (nat (defaultPercentDeadFir settings) - 5))"
proof -
  let ?pc = "defaultPercentConifer settings"
  let ?pdf = "defaultPercentDeadFir settings"
  let ?base = "fold emplaceFuel Fuels \<lparr>fuel_by_name = []\<rparr>"
  have "?pc \<in> {5, 10, 15, 20, 25, 30, 35, 40, 45, 50, 55, 60, 65, 70, 75, 80, 85, 90, 95, 100}"
    using pc by (intro multiples_of_5_below_100) simp_all
  then have "?pc \<in> {5, 10, 15, 20, 25, 30, 35, 40, 45, 50, 55, 60, 65, 70, 75, 80, 85, 90, 95}"
    using pc(2) by auto
  from conifer_lookups [OF this] obtain f1 f2 f3 where
    l1: "vector_at Fuels ((word_of_int ?pc :: size_t) div 5 - 1 + word_of_nat (safeCode (Some M1_05))) = Inr f1"
    and l2: "vector_at Fuels ((word_of_int ?pc :: size_t) div 5 - 1 + word_of_nat (safeCode (Some M2_05))) = Inr f2"
    and l3: "vector_at Fuels ((word_of_int ?pc :: size_t) div 5 - 1 + word_of_nat (safeCode (Some M1_M2_05))) = Inr f3"
    and c1: "fuel_class f1 = FuelM1 (nat ?pc)" and c2: "fuel_class f2 = FuelM2 (nat ?pc)"
    and c3: "fuel_class f3 = FuelM1M2 (nat ?pc)"
    by blast
  have "?pdf \<in> {5, 10, 15, 20, 25, 30, 35, 40, 45, 50, 55, 60, 65, 70, 75, 80, 85, 90, 95, 100}"
    using pdf by (intro multiples_of_5_below_100) simp_all
  from dead_fir_lookups [OF this] obtain f4 f5 f6 where
    l4: "vector_at Fuels ((word_of_int ?pdf :: size_t) div 5 - 1 + word_of_nat (safeCode (Some M3_05))) = Inr f4"
    and l5: "vector_at Fuels ((word_of_int ?pdf :: size_t) div 5 - 1 + word_of_nat (safeCode (Some M4_05))) = Inr f5"
    and l6: "vector_at Fuels ((word_of_int ?pdf :: size_t) div 5 - 1 + word_of_nat (safeCode (Some M3_M4_05))) = Inr f6"
    and c4: "fuel_class f4 = FuelM3 (nat ?pdf)" and c5: "fuel_class f5 = FuelM4 (nat ?pdf)"
    and c6: "fuel_class f6 = FuelM3M4 (nat ?pdf - 5)"
    by blast
  have guard_pc: "\<not> (0 \<ge> ?pc \<or> 100 \<le> ?pc \<or> c_rem ?pc 5 \<noteq> 0)"
    using pc by (simp add: c_rem_nonneg)
  have guard_pdf: "\<not> (0 > ?pdf \<or> 100 < ?pdf \<or> c_rem ?pdf 5 \<noteq> 0)"
    using pdf by (simp add: c_rem_nonneg)
  let ?lk =
    "emplaceFuel_named ''M-3/M-4'' f6 (emplaceFuel_named ''M-4'' f5 (emplaceFuel_named ''M-3'' f4
      (emplaceFuel_named ''M-1/M-2'' f3 (emplaceFuel_named ''M-2'' f2 (emplaceFuel_named ''M-1'' f1 ?base)))))"
  have new: "FuelLookupImpl_new settings = Inr ?lk"
    unfolding FuelLookupImpl_new_def Let_def
    using guard_pc guard_pdf by (simp add: l1 l2 l3 l4 l5 l6 and_then_def)
  have base: "byName ?base n = None" if "n \<notin> set (map name Fuels)" for n
    using that by (intro byName_fold_emplaceFuel_None) (simp_all add: byName_def)
  have "map_option fuel_class (byName ?lk ''M-1'') = Some (FuelM1 (nat ?pc))"
    "map_option fuel_class (byName ?lk ''M-2'') = Some (FuelM2 (nat ?pc))"
    "map_option fuel_class (byName ?lk ''M-1/M-2'') = Some (FuelM1M2 (nat ?pc))"
    "map_option fuel_class (byName ?lk ''M-3'') = Some (FuelM3 (nat ?pdf))"
    "map_option fuel_class (byName ?lk ''M-4'') = Some (FuelM4 (nat ?pdf))"
    "map_option fuel_class (byName ?lk ''M-3/M-4'') = Some (FuelM3M4 (nat ?pdf - 5))"
    by (simp_all add: byName_emplaceFuel_named mixed_names_unused [THEN base] c1 c2 c3 c4 c5 c6)
  with new show ?thesis by blast
qed

text \<open>
  With a percent dead fir of 0 the offset \<open>pdf / 5 - 1\<close> wraps, and the entry read for
  \<open>M-3\<close> is the last \<open>M-1/M-2\<close> fuel.
\<close>

lemma dead_fir_zero_wraps:
  "map_sum id fuel_class
      (vector_at Fuels ((word_of_int 0 :: size_t) div 5 - 1 + word_of_nat (safeCode (Some M3_05))))
    = Inr (FuelM1M2 95)"
  by (simp add: vector_at_def base_codes length_Fuels) (simp add: Fuels_def FuelType_new_def)

text \<open>
  C4, as the code has it. For every default percent conifer that is a multiple of 5 from
  5 to 95 and every default percent dead fir that is a multiple of 5 from 5 to 100, the
  constructor passes both percent checks and registers \<open>M-1\<close>, \<open>M-2\<close> and \<open>M-1/M-2\<close> as
  the fuels of that percent conifer and \<open>M-3\<close> and \<open>M-4\<close> as the fuels of that percent
  dead fir. A percent conifer of 0 or less, or of 100 or more, is refused: the
  constructor aborts with a fatal error.
\<close>

theorem mixed_wood_defaults_registered:
  fixes settings :: Settings
  shows "(defaultPercentConifer settings \<le> 0 \<or> 100 \<le> defaultPercentConifer settings
          \<longrightarrow> FuelLookupImpl_new settings = Inl (fatal ''Invalid default percent conifer (%d)''))
    \<and> (0 < defaultPercentConifer settings \<and> defaultPercentConifer settings < 100
        \<and> defaultPercentConifer settings mod 5 = 0
        \<and> 0 < defaultPercentDeadFir settings \<and> defaultPercentDeadFir settings \<le> 100
        \<and> defaultPercentDeadFir settings mod 5 = 0
      \<longrightarrow> (\<exists>lookup. FuelLookupImpl_new settings = Inr lookup
        \<and> map_option fuel_class (byName lookup ''M-1'') = Some (FuelM1 (nat (defaultPercentConifer settings)))
        \<and> map_option fuel_class (byName lookup ''M-2'') = Some (FuelM2 (nat (defaultPercentConifer settings)))
        \<and> map_option fuel_class (byName lookup ''M-1/M-2'') = Some (FuelM1M2 (nat (defaultPercentConifer settings)))
        \<and> map_option fuel_class (byName lookup ''M-3'') = Some (FuelM3 (nat (defaultPercentDeadFir settings)))
        \<and> map_option fuel_class (byName lookup ''M-4'') = Some (FuelM4 (nat (defaultPercentDeadFir settings)))))"
proof (intro conjI impI)
  assume "defaultPercentConifer settings \<le> 0 \<or> 100 \<le> defaultPercentConifer settings"
  then show "FuelLookupImpl_new settings = Inl (fatal ''Invalid default percent conifer (%d)'')"
    by (auto simp: FuelLookupImpl_new_def Let_def)
next
  assume a: "0 < defaultPercentConifer settings \<and> defaultPercentConifer settings < 100
        \<and> defaultPercentConifer settings mod 5 = 0
        \<and> 0 < defaultPercentDeadFir settings \<and> defaultPercentDeadFir settings \<le> 100
        \<and> defaultPercentDeadFir settings mod 5 = 0"
  then have "0 < defaultPercentConifer settings" "defaultPercentConifer settings < 100"
    "defaultPercentConifer settings mod 5 = 0"
    "0 < defaultPercentDeadFir settings" "defaultPercentDeadFir settings \<le> 100"
    "defaultPercentDeadFir settings mod 5 = 0"
    by simp_all
  from mixed_wood_registered [OF this]
  show "\<exists>lookup. FuelLookupImpl_new settings = Inr lookup
        \<and> map_option fuel_class (byName lookup ''M-1'') = Some (FuelM1 (nat (defaultPercentConifer settings)))
        \<and> map_option fuel_class (byName lookup ''M-2'') = Some (FuelM2 (nat (defaultPercentConifer settings)))
        \<and> map_option fuel_class (byName lookup ''M-1/M-2'') = Some (FuelM1M2 (nat (defaultPercentConifer settings)))
        \<and> map_option fuel_class (byName lookup ''M-3'') = Some (FuelM3 (nat (defaultPercentDeadFir settings)))
        \<and> map_option fuel_class (byName lookup ''M-4'') = Some (FuelM4 (nat (defaultPercentDeadFir settings)))"
    by blast
qed

theorem mixed_wood_defaults_registered_witness:
  "(\<exists>lookup. FuelLookupImpl_new \<lparr>deterministic = False, runAsync = True, confidenceLevel = 0.2,
        defaultPercentConifer = 50, defaultPercentDeadFir = 100\<rparr> = Inr lookup
    \<and> map_option fuel_class (byName lookup ''M-1'') = Some (FuelM1 50)
    \<and> map_option fuel_class (byName lookup ''M-2'') = Some (FuelM2 50)
    \<and> map_option fuel_class (byName lookup ''M-1/M-2'') = Some (FuelM1M2 50)
    \<and> map_option fuel_class (byName lookup ''M-3'') = Some (FuelM3 100)
    \<and> map_option fuel_class (byName lookup ''M-4'') = Some (FuelM4 100))
   \<and> FuelLookupImpl_new \<lparr>deterministic = False, runAsync = True, confidenceLevel = 0.2,
        defaultPercentConifer = 100, defaultPercentDeadFir = 50\<rparr>
        = Inl (fatal ''Invalid default percent conifer (%d)'')"
  using mixed_wood_defaults_registered [of "\<lparr>deterministic = False, runAsync = True, confidenceLevel = 0.2,
        defaultPercentConifer = 50, defaultPercentDeadFir = 100\<rparr>"]
    mixed_wood_defaults_registered [of "\<lparr>deterministic = False, runAsync = True, confidenceLevel = 0.2,
        defaultPercentConifer = 100, defaultPercentDeadFir = 50\<rparr>"]
  by simp

text \<open>
  A percent conifer of 0, a multiple of 5 in \<open>[0, 100]\<close>, is refused by the first check:
  the constructor aborts.
\<close>

theorem percent_conifer_zero_is_fatal:
  "FuelLookupImpl_new \<lparr>deterministic = False, runAsync = True, confidenceLevel = 0.2,
        defaultPercentConifer = 0, defaultPercentDeadFir = 50\<rparr>
    = Inl (fatal ''Invalid default percent conifer (%d)'')"
  by (simp add: FuelLookupImpl_new_def Let_def)

end
